theory Spec2Isabelle
  imports Main
begin

section \<open>JavaScript values, heap and errors\<close>

text \<open>
  The values that cross the message port: primitives, \<open>ArrayBuffer\<close>s,
  \<open>Float32Array\<close>s and plain objects. An \<open>ArrayBuffer\<close> is an address into the heap
  of its execution context; every \<open>Float32Array\<close> spans its whole \<open>ArrayBuffer\<close>
  (as \<open>new Float32Array(size)\<close> makes them), so a typed array is named by the address of
  its buffer. Numbers are integers plus \<open>NaN\<close>; fractional numbers, all truthy, are left
  out. The sample type \<open>'s\<close> stays abstract: no definition computes with samples.
\<close>

type_synonym addr = nat

datatype jsval =
    JUndefined
  | JNull
  | JBool bool
  | JNum int
  | JNaN
  | JStr string
  | JArrayBuffer addr
  | JFloat32Array addr
  | JObject "(string \<times> jsval) list"

text \<open>
  The exceptions of the host, \<open>WasmError\<close> for one raised inside the module, and
  \<open>OutsideModel\<close> for the few inputs whose behaviour is not described here.
\<close>

datatype err = TypeError | RangeError | DataCloneError | WasmError | OutsideModel

type_synonym 's heap = "addr \<rightharpoonup> 's list"

text \<open>\<open>ToBoolean\<close>: what \<open>if(v)\<close> and \<open>v && ...\<close> test.\<close>

fun truthy :: "jsval \<Rightarrow> bool" where
  "truthy JUndefined = False"
| "truthy JNull = False"
| "truthy (JBool b) = b"
| "truthy (JNum n) = (n \<noteq> 0)"
| "truthy JNaN = False"
| "truthy (JStr s) = (s \<noteq> [])"
| "truthy (JArrayBuffer a) = True"
| "truthy (JFloat32Array a) = True"
| "truthy (JObject fs) = True"

text \<open>
  Property read \<open>v.k\<close> for the keys the program uses (\<open>wasm\<close>, \<open>buffer\<close>,
  \<open>buffers\<close>, \<open>left\<close>, \<open>right\<close>): a \<open>TypeError\<close> on \<open>undefined\<close> and \<open>null\<close>, the
  field of a plain object, the \<open>buffer\<close> getter of a typed array, \<open>undefined\<close> otherwise.
\<close>

fun get :: "jsval \<Rightarrow> string \<Rightarrow> err + jsval" where
  "get JUndefined k = Inl TypeError"
| "get JNull k = Inl TypeError"
| "get (JObject fs) k = Inr (case map_of fs k of None \<Rightarrow> JUndefined | Some v \<Rightarrow> v)"
| "get (JFloat32Array a) k = Inr (if k = ''buffer'' then JArrayBuffer a else JUndefined)"
| "get v k = Inr JUndefined"

text \<open>A handler either returns a value or throws; both leave a state behind.\<close>

datatype ('a, 'st) outcome = Return 'a 'st | Throw err 'st

fun state_of :: "('a, 'st) outcome \<Rightarrow> 'st" where
  "state_of (Return v s) = s"
| "state_of (Throw e s) = s"

section \<open>Execution contexts and the message port\<close>

text \<open>
  A posted message: the data, the transfer list, and the sender's heap at the moment of
  the call (structured cloning reads the buffers synchronously inside \<open>postMessage\<close>).
\<close>

record 's message =
  msg_data :: jsval
  msg_transfer :: "jsval list"
  msg_heap :: "'s heap"

text \<open>What both endpoints have: a heap of buffers and the messages posted so far.\<close>

record 's agent =
  heap :: "'s heap"
  outbox :: "'s message list"

fun is_primitive :: "jsval \<Rightarrow> bool" where
  "is_primitive (JArrayBuffer a) = False"
| "is_primitive (JFloat32Array a) = False"
| "is_primitive (JObject fs) = False"
| "is_primitive v = True"

fun transferable :: "'s heap \<Rightarrow> jsval \<Rightarrow> bool" where
  "transferable h (JArrayBuffer a) = (h a \<noteq> None)"
| "transferable h v = False"

fun buffer_addrs :: "jsval list \<Rightarrow> addr set" where
  "buffer_addrs [] = {}"
| "buffer_addrs (JArrayBuffer a # vs) = insert a (buffer_addrs vs)"
| "buffer_addrs (v # vs) = buffer_addrs vs"

text \<open>
  \<open>port.postMessage(data, transfer)\<close>: a transfer list entry that is not an object is a
  \<open>TypeError\<close>; one that is not an attached \<open>ArrayBuffer\<close>, or that occurs twice, is a
  \<open>DataCloneError\<close>. Otherwise the message is queued and the transferred buffers are
  detached from the sender's heap. With an empty transfer list everything is copied and
  the sender keeps its buffers.
\<close>

definition postMessage ::
  "jsval \<Rightarrow> jsval list \<Rightarrow> ('s, 'm) agent_scheme \<Rightarrow> (unit, ('s, 'm) agent_scheme) outcome"
where
  "postMessage d ts s =
     (if \<exists>t \<in> set ts. is_primitive t then Throw TypeError s
      else if \<not> (list_all (transferable (heap s)) ts \<and> distinct ts) then Throw DataCloneError s
      else Return ()
        (s\<lparr>outbox := outbox s @ [\<lparr>msg_data = d, msg_transfer = ts, msg_heap = heap s\<rparr>],
           heap := heap s |` (- buffer_addrs ts)\<rparr>))"

section \<open>The synthesis module\<close>

text \<open>
  The package \<open>./wasm/pkg/wasm.js\<close> is imported but is not part of the sources, so its
  four entry points are parameters. Each takes the module instance's private state \<open>'g\<close>
  and gives back a result or an error together with the new private state.
  \<open>initSync\<close> receives \<open>{module: payload}\<close> and the previous instance, if any.
\<close>

record ('s, 'g) wasm_pkg =
  initSync :: "jsval \<Rightarrow> 's heap \<Rightarrow> 'g option \<Rightarrow> (err + unit) \<times> 'g option"
  new_handle :: "jsval \<Rightarrow> 'g \<Rightarrow> (err + jsval) \<times> 'g"
  wasm_process :: "'s list \<Rightarrow> 's list \<Rightarrow> jsval \<Rightarrow> 'g \<Rightarrow> (err + 's list \<times> 's list) \<times> 'g"
  get_sample :: "'s list \<Rightarrow> 's list \<Rightarrow> jsval \<Rightarrow> 'g \<Rightarrow> (err + 's list \<times> 's list) \<times> 'g"

text \<open>The calls made into the package, in order, with their arguments.\<close>

datatype call =
    InitSync jsval
  | NewHandle jsval
  | GetSample jsval jsval jsval
  | Process jsval jsval jsval

datatype jsfun = WasmProcess | WasmGetSample

section \<open>RandomNoiseProcessor (src/worklet.js and src/unnamed/part\_000)\<close>

text \<open>
  The processor object: \<open>this.processFn\<close> and \<open>this.handle\<close> (\<open>undefined\<close> until
  assigned), with the module instance of its global scope and the log of calls.
\<close>

record ('s, 'g) processor = "'s agent" +
  processFn :: "jsfun option"
  handle :: jsval
  wasm_inst :: "'g option"
  calls :: "call list"

text \<open>The state the constructor leaves: nothing assigned, nothing posted.\<close>

definition constructor :: "'s heap \<Rightarrow> ('s, 'g) processor" where
  "constructor h =
     \<lparr>heap = h, outbox = [], processFn = None, handle = JUndefined, wasm_inst = None, calls = []\<rparr>"

text \<open>\<open>wasm.State.new_handle(rate)\<close>: a \<open>TypeError\<close> if no module is instantiated.\<close>

definition call_new_handle ::
  "('s, 'g) wasm_pkg \<Rightarrow> jsval \<Rightarrow> ('s, 'g) processor \<Rightarrow> (jsval, ('s, 'g) processor) outcome"
where
  "call_new_handle w rate s =
     (let s1 = s\<lparr>calls := calls s @ [NewHandle rate]\<rparr> in
      case wasm_inst s1 of
        None \<Rightarrow> Throw TypeError s1
      | Some g \<Rightarrow>
          (case new_handle w rate g of
             (Inl e, g') \<Rightarrow> Throw e (s1\<lparr>wasm_inst := Some g'\<rparr>)
           | (Inr h, g') \<Rightarrow> Return h (s1\<lparr>wasm_inst := Some g'\<rparr>)))"

text \<open>
  Modelled from the spec: the glue of the absent package around \<open>wasm.process\<close> and
  \<open>wasm.get_sample\<close>. Both take two mutable float slices and the handle (spec 4.1 and
  6: \<open>fill(left, right, handle)\<close> writes into the two slices and mutates only the state
  behind the handle). The two arguments must be \<open>Float32Array\<close>s on attached buffers,
  anything else is a \<open>TypeError\<close>; the new contents are written back to the left array,
  then to the right one. A call that throws writes nothing back.
\<close>

definition call_fill ::
  "jsfun \<Rightarrow> ('s, 'g) wasm_pkg \<Rightarrow> jsval \<Rightarrow> jsval \<Rightarrow> jsval \<Rightarrow> ('s, 'g) processor
     \<Rightarrow> (unit, ('s, 'g) processor) outcome"
where
  "call_fill f w left right h s =
     (let s1 = s\<lparr>calls := calls s @
                 [case f of WasmProcess \<Rightarrow> Process left right h
                          | WasmGetSample \<Rightarrow> GetSample left right h]\<rparr> in
      case wasm_inst s1 of
        None \<Rightarrow> Throw TypeError s1
      | Some g \<Rightarrow>
          (case (left, right) of
             (JFloat32Array a, JFloat32Array b) \<Rightarrow>
               (case (heap s1 a, heap s1 b) of
                  (Some l, Some r) \<Rightarrow>
                    (case (case f of WasmProcess \<Rightarrow> wasm_process w l r h g
                                   | WasmGetSample \<Rightarrow> get_sample w l r h g) of
                       (Inl e, g') \<Rightarrow> Throw e (s1\<lparr>wasm_inst := Some g'\<rparr>)
                     | (Inr (l', r'), g') \<Rightarrow>
                         Return () (s1\<lparr>wasm_inst := Some g', heap := (heap s1)(a \<mapsto> l', b \<mapsto> r')\<rparr>))
                | _ \<Rightarrow> Throw TypeError s1)
           | _ \<Rightarrow> Throw TypeError s1))"

text \<open>
  The bootstrap branch, the same in both versions of the handler:
  \<open>wasm.initSync({ module: ev.data.wasm }); this.processFn = wasm.process;
  this.handle = wasm.State.new_handle(sampleRate);\<close>
  (src/unnamed/part\_000 writes \<open>wasm.Instance.new_handle\<close>, the name of the same entry
  point in its version of the package.)
\<close>

definition bootstrap ::
  "('s, 'g) wasm_pkg \<Rightarrow> jsval \<Rightarrow> jsval \<Rightarrow> ('s, 'g) processor \<Rightarrow> (unit, ('s, 'g) processor) outcome"
where
  "bootstrap w sampleRate payload s =
     (let arg = JObject [(''module'', payload)];
          s1 = s\<lparr>calls := calls s @ [InitSync arg]\<rparr> in
      case initSync w arg (heap s1) (wasm_inst s1) of
        (Inl e, g1) \<Rightarrow> Throw e (s1\<lparr>wasm_inst := g1\<rparr>)
      | (Inr u, g1) \<Rightarrow>
          (let s2 = s1\<lparr>wasm_inst := g1, processFn := Some WasmProcess\<rparr> in
           case call_new_handle w sampleRate s2 of
             Throw e s3 \<Rightarrow> Throw e s3
           | Return h s3 \<Rightarrow> Return () (s3\<lparr>handle := h\<rparr>)))"

text \<open>\<open>this.port.onmessage\<close> of src/worklet.js, applied to \<open>ev.data\<close>.\<close>

definition onmessage ::
  "('s, 'g) wasm_pkg \<Rightarrow> jsval \<Rightarrow> jsval \<Rightarrow> ('s, 'g) processor \<Rightarrow> (unit, ('s, 'g) processor) outcome"
where
  "onmessage w sampleRate data s =
     (case get data ''wasm'' of
        Inl e \<Rightarrow> Throw e s
      | Inr wasm_field \<Rightarrow>
          if truthy wasm_field then bootstrap w sampleRate wasm_field s
          else if \<not> truthy (handle s) then Return () s
          else
            (case get data ''buffer'' of
               Inl e \<Rightarrow> Throw e s
             | Inr buffer \<Rightarrow>
                 if \<not> truthy buffer then Return () s
                 else
                   (case get buffer ''left'' of
                      Inl e \<Rightarrow> Throw e s
                    | Inr left \<Rightarrow>
                        (case get buffer ''right'' of
                           Inl e \<Rightarrow> Throw e s
                         | Inr right \<Rightarrow>
                             (case call_fill WasmGetSample w left right (handle s) s of
                                Throw e s1 \<Rightarrow> Throw e s1
                              | Return u s1 \<Rightarrow> postMessage data [] s1)))))"

text \<open>
  \<open>this.port.onmessage\<close> of src/unnamed/part\_000: the field is \<open>buffers\<close>, and the reply
  is \<open>postMessage({buffers}, [buffers.left.buffer, buffers.right.buffer])\<close>.
\<close>

definition onmessage_part000 ::
  "('s, 'g) wasm_pkg \<Rightarrow> jsval \<Rightarrow> jsval \<Rightarrow> ('s, 'g) processor \<Rightarrow> (unit, ('s, 'g) processor) outcome"
where
  "onmessage_part000 w sampleRate data s =
     (case get data ''wasm'' of
        Inl e \<Rightarrow> Throw e s
      | Inr wasm_field \<Rightarrow>
          if truthy wasm_field then bootstrap w sampleRate wasm_field s
          else if \<not> truthy (handle s) then Return () s
          else
            (case get data ''buffers'' of
               Inl e \<Rightarrow> Throw e s
             | Inr buffers \<Rightarrow>
                 if \<not> truthy buffers then Return () s
                 else
                   (case get buffers ''left'' of
                      Inl e \<Rightarrow> Throw e s
                    | Inr left \<Rightarrow>
                        (case get buffers ''right'' of
                           Inl e \<Rightarrow> Throw e s
                         | Inr right \<Rightarrow>
                             (case call_fill WasmGetSample w left right (handle s) s of
                                Throw e s1 \<Rightarrow> Throw e s1
                              | Return u s1 \<Rightarrow>
                                  (case get left ''buffer'' of
                                     Inl e \<Rightarrow> Throw e s1
                                   | Inr lb \<Rightarrow>
                                       (case get right ''buffer'' of
                                          Inl e \<Rightarrow> Throw e s1
                                        | Inr rb \<Rightarrow>
                                            postMessage (JObject [(''buffers'', buffers)])
                                              [lb, rb] s1)))))))"

text \<open>
  \<open>process(inputs, outputs, parameters)\<close>, the same in both versions. \<open>outputs\<close> is the
  host's array of output blocks, each an array of channels; an index past the end reads
  \<open>undefined\<close>, and indexing \<open>undefined\<close> is a \<open>TypeError\<close>.
\<close>

definition elem :: "jsval list \<Rightarrow> nat \<Rightarrow> jsval" where
  "elem xs i = (if i < length xs then xs ! i else JUndefined)"

definition process ::
  "('s, 'g) wasm_pkg \<Rightarrow> jsval list list \<Rightarrow> ('s, 'g) processor \<Rightarrow> (bool, ('s, 'g) processor) outcome"
where
  "process w outputs s =
     (let output = (case outputs of [] \<Rightarrow> None | out # rest \<Rightarrow> Some out) in
      if truthy (handle s) then
        (case output of
           None \<Rightarrow> Throw TypeError s
         | Some out \<Rightarrow>
             (case processFn s of
                None \<Rightarrow> Throw TypeError s
              | Some f \<Rightarrow>
                  (case call_fill f w (elem out 0) (elem out 1) (handle s) s of
                     Throw e s1 \<Rightarrow> Throw e s1
                   | Return u s1 \<Rightarrow> Return True s1)))
      else Return True s)"

text \<open>
  Executions of the processor. The host delivers messages and runs audio callbacks one
  at a time; each event brings the arrays it refers to (the deserialised message, the
  output block) into the heap, at addresses the heap does not use yet. An exception
  ends the handler and the processor lives on in the state reached. The handler is a
  parameter, for the two versions.
\<close>

datatype 's event = Message jsval "'s heap" | Audio "jsval list list" "'s heap"

type_synonym ('s, 'g) handler =
  "('s, 'g) wasm_pkg \<Rightarrow> jsval \<Rightarrow> jsval \<Rightarrow> ('s, 'g) processor \<Rightarrow> (unit, ('s, 'g) processor) outcome"

fun fire ::
  "('s, 'g) handler \<Rightarrow> ('s, 'g) wasm_pkg \<Rightarrow> jsval \<Rightarrow> ('s, 'g) processor \<Rightarrow> 's event
     \<Rightarrow> ('s, 'g) processor"
where
  "fire hm w rate s (Message d h) = state_of (hm w rate d (s\<lparr>heap := h ++ heap s\<rparr>))"
| "fire hm w rate s (Audio outs h) = state_of (process w outs (s\<lparr>heap := h ++ heap s\<rparr>))"

definition run ::
  "('s, 'g) handler \<Rightarrow> ('s, 'g) wasm_pkg \<Rightarrow> jsval \<Rightarrow> 's event list \<Rightarrow> ('s, 'g) processor
     \<Rightarrow> ('s, 'g) processor"
where
  "run hm w rate evs s = foldl (fire hm w rate) s evs"

section \<open>The control script (src/unnamed/part\_001)\<close>

text \<open>
  The page's state: the heap and port of the main thread, the two arrays \<open>bufLeft\<close> and
  \<open>bufRight\<close> (bound once, never reassigned), the elements of the document by id with
  their \<open>d\<close> attribute, and the number of pending \<open>requestAnimationFrame\<close> callbacks.
\<close>

record 's control = "'s agent" +
  bufLeft :: addr
  bufRight :: addr
  elements :: "string \<rightharpoonup> string"
  raf :: nat

definition size_buf :: nat where
  "size_buf = 256"

definition mirror_request :: "addr \<Rightarrow> addr \<Rightarrow> jsval" where
  "mirror_request l r =
     JObject [(''buffer'', JObject [(''left'', JFloat32Array l), (''right'', JFloat32Array r)])]"

text \<open>
  The top-level script from \<open>node.port.postMessage({wasm})\<close> on (lines 10 to 32 and 51);
  the audio graph and the fetch before it are the host's. The fetched bytes sit at
  address 0, the two arrays of \<open>size\<close> zeros at 1 and 2. A document without the
  \<open>play\<close> element stops the script at line 17.
\<close>

definition startup :: "'s \<Rightarrow> 's list \<Rightarrow> (string \<rightharpoonup> string) \<Rightarrow> (unit, 's control) outcome" where
  "startup zero wasm_bytes els =
     (let s0 = \<lparr>heap = [0 \<mapsto> wasm_bytes], outbox = [], bufLeft = 1, bufRight = 2,
                elements = els, raf = 0\<rparr> in
      case postMessage (JObject [(''wasm'', JArrayBuffer 0)]) [] s0 of
        Throw e s1 \<Rightarrow> Throw e s1
      | Return u s1 \<Rightarrow>
          if els ''play'' = None then Throw TypeError s1
          else
            (let s2 = s1\<lparr>heap := (heap s1)(bufLeft s1 \<mapsto> replicate size_buf zero,
                                           bufRight s1 \<mapsto> replicate size_buf zero)\<rparr> in
             case postMessage (mirror_request (bufLeft s2) (bufRight s2)) [] s2 of
               Throw e s3 \<Rightarrow> Throw e s3
             | Return u s3 \<Rightarrow> Return () (s3\<lparr>raf := raf s3 + 1\<rparr>)))"

text \<open>
  \<open>target.set(source)\<close> of a \<open>Float32Array\<close>: a \<open>TypeError\<close> for a detached target,
  for \<open>undefined\<close>, \<open>null\<close> or a detached source, a \<open>RangeError\<close> for a source longer
  than the target; otherwise the source overwrites the front of the target. A source with
  no \<open>length\<close> copies nothing; other array-like sources (non-empty strings, objects
  with a \<open>length\<close>) are outside the model and reported as such.
\<close>

definition typed_array_set ::
  "addr \<Rightarrow> jsval \<Rightarrow> ('s, 'm) agent_scheme \<Rightarrow> (unit, ('s, 'm) agent_scheme) outcome"
where
  "typed_array_set t src s =
     (case heap s t of
        None \<Rightarrow> Throw TypeError s
      | Some tv \<Rightarrow>
          (case src of
             JUndefined \<Rightarrow> Throw TypeError s
           | JNull \<Rightarrow> Throw TypeError s
           | JFloat32Array a \<Rightarrow>
               (case heap s a of
                  None \<Rightarrow> Throw TypeError s
                | Some sv \<Rightarrow>
                    if length tv < length sv then Throw RangeError s
                    else Return () (s\<lparr>heap := (heap s)(t \<mapsto> sv @ drop (length sv) tv)\<rparr>))
           | JStr str \<Rightarrow> if str = [] then Return () s else Throw OutsideModel s
           | JObject fs \<Rightarrow>
               (case map_of fs ''length'' of
                  None \<Rightarrow> Return () s
                | Some n \<Rightarrow> Throw OutsideModel s)
           | _ \<Rightarrow> Return () s))"

text \<open>
  \<open>node.port.onmessage\<close>:
  \<open>bufLeft.set(ev.data.buffer.left); bufRight.set(ev.data.buffer.right);\<close>
\<close>

definition ctl_onmessage :: "jsval \<Rightarrow> 's control \<Rightarrow> (unit, 's control) outcome" where
  "ctl_onmessage data s =
     (case get data ''buffer'' of
        Inl e \<Rightarrow> Throw e s
      | Inr buffer \<Rightarrow>
          (case get buffer ''left'' of
             Inl e \<Rightarrow> Throw e s
           | Inr left \<Rightarrow>
               (case typed_array_set (bufLeft s) left s of
                  Throw e s1 \<Rightarrow> Throw e s1
                | Return u s1 \<Rightarrow>
                    (case get data ''buffer'' of
                       Inl e \<Rightarrow> Throw e s1
                     | Inr buffer2 \<Rightarrow>
                         (case get buffer2 ''right'' of
                            Inl e \<Rightarrow> Throw e s1
                          | Inr right \<Rightarrow> typed_array_set (bufRight s1) right s1)))))"

text \<open>
  \<open>drawFrame\<close>. The text of a number is the host's: \<open>fa i\<close> stands for the template
  text of \<open>i * 6.28 / size\<close> and \<open>fs\<close> for that of an array element (\<open>None\<close> is an
  index past the end, which reads \<open>undefined\<close>). \<open>getElementById\<close> gives \<open>null\<close>
  for an id the document lacks, and \<open>setAttribute\<close> on it is a \<open>TypeError\<close>.
\<close>

definition read_elem :: "'s heap \<Rightarrow> addr \<Rightarrow> nat \<Rightarrow> 's option" where
  "read_elem h a i =
     (case h a of None \<Rightarrow> None | Some xs \<Rightarrow> if i < length xs then Some (xs ! i) else None)"

definition path_d :: "(nat \<Rightarrow> string) \<Rightarrow> ('s option \<Rightarrow> string) \<Rightarrow> 's heap \<Rightarrow> addr \<Rightarrow> string" where
  "path_d fa fs h a =
     foldl (\<lambda>d i. d @ fa i @ '' '' @ fs (read_elem h a i) @ '' L '') ''M '' [0..<size_buf]
       @ ''6.283 '' @ fs (read_elem h a 0)"

definition setAttribute_d :: "string \<Rightarrow> string \<Rightarrow> 's control \<Rightarrow> (unit, 's control) outcome" where
  "setAttribute_d ident d s =
     (case elements s ident of
        None \<Rightarrow> Throw TypeError s
      | Some old \<Rightarrow> Return () (s\<lparr>elements := (elements s)(ident \<mapsto> d)\<rparr>))"

definition drawFrame ::
  "(nat \<Rightarrow> string) \<Rightarrow> ('s option \<Rightarrow> string) \<Rightarrow> 's control \<Rightarrow> (unit, 's control) outcome"
where
  "drawFrame fa fs s =
     (let dLeft = path_d fa fs (heap s) (bufLeft s) in
      case setAttribute_d ''pathLeft'' dLeft s of
        Throw e s1 \<Rightarrow> Throw e s1
      | Return u s1 \<Rightarrow>
          (let dRight = path_d fa fs (heap s1) (bufRight s1) in
           case setAttribute_d ''pathRight'' dRight s1 of
             Throw e s2 \<Rightarrow> Throw e s2
           | Return u s2 \<Rightarrow>
               (let s3 = s2\<lparr>raf := raf s2 + 1\<rparr> in
                postMessage (mirror_request (bufLeft s3) (bufRight s3)) [] s3)))"

text \<open>
  Executions of the control script after startup: an animation frame runs \<open>drawFrame\<close>
  if a callback is pending, and a reply from the port runs the message handler on the
  deserialised data.
\<close>

datatype 's cevent = Frame | Reply jsval "'s heap"

fun cfire ::
  "(nat \<Rightarrow> string) \<Rightarrow> ('s option \<Rightarrow> string) \<Rightarrow> 's control \<Rightarrow> 's cevent \<Rightarrow> 's control"
where
  "cfire fa fs s Frame =
     (if raf s = 0 then s else state_of (drawFrame fa fs (s\<lparr>raf := raf s - 1\<rparr>)))"
| "cfire fa fs s (Reply d h) = state_of (ctl_onmessage d (s\<lparr>heap := h ++ heap s\<rparr>))"

definition crun ::
  "(nat \<Rightarrow> string) \<Rightarrow> ('s option \<Rightarrow> string) \<Rightarrow> 's cevent list \<Rightarrow> 's control \<Rightarrow> 's control"
where
  "crun fa fs evs s = foldl (cfire fa fs) s evs"

text \<open>
  Mirror requests issued so far, replies delivered so far, and their difference: the
  requests in flight.
\<close>

definition is_mirror_request :: "'s message \<Rightarrow> bool" where
  "is_mirror_request m =
     (case get (msg_data m) ''buffer'' of Inl e \<Rightarrow> False | Inr b \<Rightarrow> truthy b)"

definition issued :: "('s, 'm) agent_scheme \<Rightarrow> nat" where
  "issued s = length (filter is_mirror_request (outbox s))"

fun is_reply :: "'s cevent \<Rightarrow> bool" where
  "is_reply Frame = False"
| "is_reply (Reply d h) = True"

definition in_flight ::
  "(nat \<Rightarrow> string) \<Rightarrow> ('s option \<Rightarrow> string) \<Rightarrow> 's control \<Rightarrow> 's cevent list \<Rightarrow> int"
where
  "in_flight fa fs s0 evs =
     int (issued (crun fa fs evs s0)) - int (length (filter is_reply evs))"

text \<open>
  What the frame loop keeps true once the script has started on a document that has both
  path elements: one callback pending, both elements present.
\<close>

definition ctl_inv :: "'s control \<Rightarrow> bool" where
  "ctl_inv c = (raf c = 1 \<and> elements c ''pathLeft'' \<noteq> None \<and> elements c ''pathRight'' \<noteq> None)"

section \<open>Concrete inputs\<close>

text \<open>
  A stand-in for the module, used only to run the definitions at concrete inputs: its
  private state is a counter, the handle is the number 1, and a fill writes the counter
  into every sample of the left slice and its successor into the right one.
\<close>

definition test_fill :: "nat list \<Rightarrow> nat list \<Rightarrow> jsval \<Rightarrow> nat \<Rightarrow> (err + nat list \<times> nat list) \<times> nat" where
  "test_fill l r h g = (Inr (replicate (length l) g, replicate (length r) (Suc g)), g + 2)"

definition test_wasm :: "(nat, nat) wasm_pkg" where
  "test_wasm =
     \<lparr>initSync = (\<lambda>arg h g. (Inr (), Some 5)),
      new_handle = (\<lambda>rate g. (Inr (JNum 1), g)),
      wasm_process = test_fill,
      get_sample = test_fill\<rparr>"

definition test_heap :: "nat heap" where
  "test_heap = [10 \<mapsto> [0, 0, 0], 11 \<mapsto> [0, 0, 0]]"

definition test_ready :: "(nat, nat) processor" where
  "test_ready =
     \<lparr>heap = test_heap, outbox = [], processFn = Some WasmProcess, handle = JNum 1,
      wasm_inst = Some 5, calls = []\<rparr>"

definition test_doc :: "string \<rightharpoonup> string" where
  "test_doc = [''play'' \<mapsto> [], ''pathLeft'' \<mapsto> [], ''pathRight'' \<mapsto> []]"

definition test_request_part000 :: jsval where
  "test_request_part000 =
     JObject [(''buffers'', JObject [(''left'', JFloat32Array 10), (''right'', JFloat32Array 11)])]"

text \<open>A message that carries both a payload and mirror buffers, under either field name.\<close>

definition both_request :: jsval where
  "both_request =
     JObject [(''wasm'', JArrayBuffer 0),
              (''buffer'', JObject [(''left'', JFloat32Array 10), (''right'', JFloat32Array 11)]),
              (''buffers'', JObject [(''left'', JFloat32Array 10), (''right'', JFloat32Array 11)])]"

definition test_bootstrap :: jsval where
  "test_bootstrap = JObject [(''wasm'', JArrayBuffer 0)]"

definition test_booted :: "(nat, nat) processor" where
  "test_booted =
     (run onmessage test_wasm (JNum 48000) [Message test_bootstrap Map.empty]
        (constructor Map.empty))\<lparr>heap := test_heap\<rparr>"

text \<open>
  The page after startup, a reply as it arrives there (two arrays of \<open>size\<close> samples),
  and the page with that reply deserialised into its heap.
\<close>

definition test_started :: "nat control" where
  "test_started = state_of (startup 0 [] test_doc)"

definition test_reply_heap :: "nat heap" where
  "test_reply_heap = [10 \<mapsto> replicate size_buf 5, 11 \<mapsto> replicate size_buf 6]"

definition test_replied :: "nat control" where
  "test_replied = test_started\<lparr>heap := test_reply_heap ++ heap test_started\<rparr>"

section \<open>Auxiliary facts\<close>

lemma restrict_map_all: "m |` UNIV = m"
  by (simp add: restrict_map_def)

lemma postMessage_copy:
  "postMessage d [] s =
     Return () (s\<lparr>outbox := outbox s @ [\<lparr>msg_data = d, msg_transfer = [], msg_heap = heap s\<rparr>]\<rparr>)"
  by (simp add: postMessage_def restrict_map_all)

lemma bootstrap_frame:
  "heap (state_of (bootstrap w rate p s)) = heap s"
  "outbox (state_of (bootstrap w rate p s)) = outbox s"
  by (simp_all add: bootstrap_def call_new_handle_def Let_def
        split: option.split prod.split sum.split outcome.split)

lemma bootstrap_calls:
  "calls (state_of (bootstrap w rate p s)) = calls s @ [InitSync (JObject [(''module'', p)])]
   \<or> calls (state_of (bootstrap w rate p s))
        = calls s @ [InitSync (JObject [(''module'', p)]), NewHandle rate]"
  by (simp add: bootstrap_def call_new_handle_def Let_def
        split: option.split prod.split sum.split outcome.split)

lemma call_fill_fields:
  "handle (state_of (call_fill f w l r h s)) = handle s"
  "processFn (state_of (call_fill f w l r h s)) = processFn s"
  "outbox (state_of (call_fill f w l r h s)) = outbox s"
  by (simp_all add: call_fill_def Let_def
        split: option.split prod.split sum.split jsval.split)

lemma postMessage_fields:
  fixes s :: "('s, 'g) processor"
  shows "handle (state_of (postMessage d ts s)) = handle s"
    and "processFn (state_of (postMessage d ts s)) = processFn s"
  by (simp_all add: postMessage_def)

lemma call_fill_then_post_fields:
  "handle (state_of (case call_fill f w l r h s of
       Throw e s1 \<Rightarrow> Throw e s1 | Return u s1 \<Rightarrow> postMessage d ts s1)) = handle s"
  "processFn (state_of (case call_fill f w l r h s of
       Throw e s1 \<Rightarrow> Throw e s1 | Return u s1 \<Rightarrow> postMessage d ts s1)) = processFn s"
  using call_fill_fields(1,2) [of f w l r h s]
  by (cases "call_fill f w l r h s"; simp add: postMessage_fields)+

lemma onmessage_cases:
  "(\<exists>p. onmessage w rate d s = bootstrap w rate p s)
   \<or> (handle (state_of (onmessage w rate d s)) = handle s
      \<and> processFn (state_of (onmessage w rate d s)) = processFn s)"
  by (auto simp add: onmessage_def call_fill_then_post_fields split: sum.split)

lemma call_fill_then_true_fields:
  "handle (state_of (case call_fill f w l r h s of
       Throw e s1 \<Rightarrow> Throw e s1 | Return u s1 \<Rightarrow> Return True s1)) = handle s"
  "processFn (state_of (case call_fill f w l r h s of
       Throw e s1 \<Rightarrow> Throw e s1 | Return u s1 \<Rightarrow> Return True s1)) = processFn s"
  using call_fill_fields(1,2) [of f w l r h s]
  by (cases "call_fill f w l r h s"; simp)+

lemma process_fields:
  "handle (state_of (process w outs s)) = handle s"
  "processFn (state_of (process w outs s)) = processFn s"
  by (simp_all add: process_def Let_def call_fill_then_true_fields split: list.split option.split)

lemma bootstrap_handle:
  assumes "\<And>g h g'. new_handle w rate g = (Inr h, g') \<Longrightarrow> truthy h"
    and "truthy (handle s)"
  shows "truthy (handle (state_of (bootstrap w rate p s)))"
  using assms
  by (auto simp add: bootstrap_def call_new_handle_def Let_def
        split: option.split prod.split sum.split)

lemma bootstrap_processFn:
  assumes "truthy (handle s) \<longrightarrow> processFn s = Some WasmProcess"
  shows "truthy (handle (state_of (bootstrap w rate p s)))
     \<longrightarrow> processFn (state_of (bootstrap w rate p s)) = Some WasmProcess"
  using assms
  by (auto simp add: bootstrap_def call_new_handle_def Let_def
        split: option.split prod.split sum.split)


lemma call_fill_then_part000_fields:
  "handle (state_of (case call_fill f w l r h s of
       Throw e s1 \<Rightarrow> Throw e s1
     | Return u s1 \<Rightarrow>
         (case get l ''buffer'' of
            Inl e \<Rightarrow> Throw e s1
          | Inr lb \<Rightarrow>
              (case get r ''buffer'' of
                 Inl e \<Rightarrow> Throw e s1
               | Inr rb \<Rightarrow> postMessage d [lb, rb] s1)))) = handle s"
  "processFn (state_of (case call_fill f w l r h s of
       Throw e s1 \<Rightarrow> Throw e s1
     | Return u s1 \<Rightarrow>
         (case get l ''buffer'' of
            Inl e \<Rightarrow> Throw e s1
          | Inr lb \<Rightarrow>
              (case get r ''buffer'' of
                 Inl e \<Rightarrow> Throw e s1
               | Inr rb \<Rightarrow> postMessage d [lb, rb] s1)))) = processFn s"
  using call_fill_fields(1,2) [of f w l r h s]
  by (cases "call_fill f w l r h s"; simp add: postMessage_fields split: sum.split)+

lemma onmessage_part000_cases:
  "(\<exists>p. onmessage_part000 w rate d s = bootstrap w rate p s)
   \<or> (handle (state_of (onmessage_part000 w rate d s)) = handle s
      \<and> processFn (state_of (onmessage_part000 w rate d s)) = processFn s)"
  by (auto simp add: onmessage_part000_def call_fill_then_part000_fields split: sum.split)

lemma fire_handle:
  assumes "\<And>g h g'. new_handle w rate g = (Inr h, g') \<Longrightarrow> truthy h"
    and "hm = onmessage \<or> hm = onmessage_part000"
    and "truthy (handle s)"
  shows "truthy (handle (fire hm w rate s ev))"
proof (cases ev)
  case (Message d h)
  let ?t = "s\<lparr>heap := h ++ heap s\<rparr>"
  have t: "truthy (handle ?t)" using assms(3) by simp
  have "(\<exists>p. hm w rate d ?t = bootstrap w rate p ?t)
      \<or> handle (state_of (hm w rate d ?t)) = handle ?t"
    using assms(2) onmessage_cases [of w rate d ?t] onmessage_part000_cases [of w rate d ?t]
    by blast
  then show ?thesis
    using bootstrap_handle [OF assms(1) t] t Message by auto
next
  case (Audio outs h)
  then show ?thesis using assms(3) by (simp add: process_fields)
qed

lemma run_handle:
  assumes "\<And>g h g'. new_handle w rate g = (Inr h, g') \<Longrightarrow> truthy h"
    and "hm = onmessage \<or> hm = onmessage_part000"
  shows "truthy (handle s) \<Longrightarrow> truthy (handle (run hm w rate evs s))"
proof (induction evs arbitrary: s)
  case Nil
  then show ?case by (simp add: run_def)
next
  case (Cons ev evs)
  have "truthy (handle (fire hm w rate s ev))"
    using fire_handle [OF assms(1) assms(2) Cons.prems] .
  from Cons.IH [OF this] show ?case by (simp add: run_def)
qed

lemma fire_processFn:
  assumes "hm = onmessage \<or> hm = onmessage_part000"
    and "truthy (handle s) \<longrightarrow> processFn s = Some WasmProcess"
  shows "truthy (handle (fire hm w rate s ev))
     \<longrightarrow> processFn (fire hm w rate s ev) = Some WasmProcess"
proof (cases ev)
  case (Message d h)
  let ?t = "s\<lparr>heap := h ++ heap s\<rparr>"
  have t: "truthy (handle ?t) \<longrightarrow> processFn ?t = Some WasmProcess" using assms(2) by simp
  have "(\<exists>p. hm w rate d ?t = bootstrap w rate p ?t)
      \<or> (handle (state_of (hm w rate d ?t)) = handle ?t
         \<and> processFn (state_of (hm w rate d ?t)) = processFn ?t)"
    using assms(1) onmessage_cases [of w rate d ?t] onmessage_part000_cases [of w rate d ?t]
    by blast
  then show ?thesis
    using bootstrap_processFn [OF t] t Message by auto
next
  case (Audio outs h)
  then show ?thesis using assms(2) by (simp add: process_fields)
qed

lemma run_processFn:
  assumes "hm = onmessage \<or> hm = onmessage_part000"
  shows "truthy (handle s) \<longrightarrow> processFn s = Some WasmProcess
     \<Longrightarrow> truthy (handle (run hm w rate evs s))
        \<longrightarrow> processFn (run hm w rate evs s) = Some WasmProcess"
proof (induction evs arbitrary: s)
  case Nil
  then show ?case by (simp add: run_def)
next
  case (Cons ev evs)
  from Cons.IH [OF fire_processFn [OF assms Cons.prems]] show ?case by (simp add: run_def)
qed

lemma process_ready:
  assumes "truthy (handle s)" and "processFn s = Some WasmProcess" and "wasm_inst s = Some g"
    and "heap s a = Some l" and "heap s b = Some r"
    and "wasm_process w l r (handle s) g = (Inr (l', r'), g')"
  shows "process w ((JFloat32Array a # JFloat32Array b # chans) # blocks) s
     = Return True (s\<lparr>calls := calls s @ [Process (JFloat32Array a) (JFloat32Array b) (handle s)],
          wasm_inst := Some g', heap := (heap s)(a \<mapsto> l', b \<mapsto> r')\<rparr>)"
proof -
  have "call_fill WasmProcess w (JFloat32Array a) (JFloat32Array b) (handle s) s
     = Return () (s\<lparr>calls := calls s @ [Process (JFloat32Array a) (JFloat32Array b) (handle s)],
          wasm_inst := Some g', heap := (heap s)(a \<mapsto> l', b \<mapsto> r')\<rparr>)"
    using assms by (simp add: call_fill_def Let_def)
  then show ?thesis using assms by (simp add: process_def elem_def)
qed

lemma constructor_fields:
  "handle (constructor h) = JUndefined" "processFn (constructor h) = None"
  by (simp_all add: constructor_def)

lemma test_booted_eq:
  "test_booted = test_ready\<lparr>calls := [InitSync (JObject [(''module'', JArrayBuffer 0)]),
                                     NewHandle (JNum 48000)]\<rparr>"
  by (simp add: test_booted_def test_ready_def run_def onmessage_def bootstrap_def
        call_new_handle_def test_wasm_def constructor_def test_bootstrap_def)

lemma get_typed_array_truthy:
  "get v k = Inr (JFloat32Array a) \<Longrightarrow> truthy v"
  by (cases v) (auto split: option.splits if_splits)

lemma get_sample_ok:
  assumes "wasm_inst s = Some g" and "heap s a = Some l" and "heap s b = Some r"
    and "get_sample w l r h g = (Inr (l', r'), g')"
  shows "call_fill WasmGetSample w (JFloat32Array a) (JFloat32Array b) h s
     = Return () (s\<lparr>calls := calls s @ [GetSample (JFloat32Array a) (JFloat32Array b) h],
          wasm_inst := Some g', heap := (heap s)(a \<mapsto> l', b \<mapsto> r')\<rparr>)"
  using assms by (simp add: call_fill_def Let_def)

lemma bootstrap_ok:
  assumes "initSync w (JObject [(''module'', p)]) (heap s) (wasm_inst s) = (Inr (), Some g)"
    and "new_handle w rate g = (Inr h, g1)"
  shows "bootstrap w rate p s
     = Return ()
         (s\<lparr>calls := calls s @ [InitSync (JObject [(''module'', p)]), NewHandle rate],
            wasm_inst := Some g1, processFn := Some WasmProcess, handle := h\<rparr>)"
  using assms by (simp add: bootstrap_def call_new_handle_def Let_def)

lemma call_fill_then_post_outbox:
  "outbox (state_of (case call_fill f w l r h s of
       Throw e s1 \<Rightarrow> Throw e s1 | Return u s1 \<Rightarrow> postMessage d [] s1)) = outbox s
   \<or> (\<exists>hp. outbox (state_of (case call_fill f w l r h s of
       Throw e s1 \<Rightarrow> Throw e s1 | Return u s1 \<Rightarrow> postMessage d [] s1))
         = outbox s @ [\<lparr>msg_data = d, msg_transfer = [], msg_heap = hp\<rparr>])"
  using call_fill_fields(3) [of f w l r h s]
  by (cases "call_fill f w l r h s"; simp add: postMessage_copy)

lemma onmessage_outbox:
  "outbox (state_of (onmessage w rate d s)) = outbox s
   \<or> (\<exists>hp. outbox (state_of (onmessage w rate d s))
         = outbox s @ [\<lparr>msg_data = d, msg_transfer = [], msg_heap = hp\<rparr>])"
proof -
  have "\<And>l r. outbox (state_of (case call_fill WasmGetSample w l r (handle s) s of
           Throw e s1 \<Rightarrow> Throw e s1 | Return u s1 \<Rightarrow> postMessage d [] s1)) = outbox s
       \<or> (\<exists>hp. outbox (state_of (case call_fill WasmGetSample w l r (handle s) s of
           Throw e s1 \<Rightarrow> Throw e s1 | Return u s1 \<Rightarrow> postMessage d [] s1))
             = outbox s @ [\<lparr>msg_data = d, msg_transfer = [], msg_heap = hp\<rparr>])"
    by (rule call_fill_then_post_outbox)
  then show ?thesis
    by (simp add: onmessage_def bootstrap_frame split: sum.split)
qed

lemma drawFrame_outbox:
  "outbox (state_of (drawFrame fa fs c)) = outbox c
   \<or> outbox (state_of (drawFrame fa fs c))
        = outbox c @ [\<lparr>msg_data = mirror_request (bufLeft c) (bufRight c), msg_transfer = [],
                       msg_heap = heap c\<rparr>]"
  by (simp add: drawFrame_def setAttribute_d_def Let_def postMessage_copy split: option.split)

lemma startup_outbox:
  "outbox (state_of (startup z wb els))
     = [\<lparr>msg_data = JObject [(''wasm'', JArrayBuffer 0)], msg_transfer = [],
         msg_heap = [0 \<mapsto> wb]\<rparr>]
   \<or> outbox (state_of (startup z wb els))
     = [\<lparr>msg_data = JObject [(''wasm'', JArrayBuffer 0)], msg_transfer = [],
         msg_heap = [0 \<mapsto> wb]\<rparr>,
        \<lparr>msg_data = mirror_request 1 2, msg_transfer = [],
         msg_heap = [0 \<mapsto> wb, 1 \<mapsto> replicate size_buf z, 2 \<mapsto> replicate size_buf z]\<rparr>]"
  by (simp add: startup_def Let_def postMessage_copy)

lemma part000_reply:
  assumes "truthy (handle s)"
    and "get data ''wasm'' = Inr v" and "\<not> truthy v"
    and "get data ''buffers'' = Inr buffers"
    and "get buffers ''left'' = Inr (JFloat32Array a)"
    and "get buffers ''right'' = Inr (JFloat32Array b)"
    and "a \<noteq> b"
    and "wasm_inst s = Some g" and "heap s a = Some l" and "heap s b = Some r"
    and "get_sample w l r (handle s) g = (Inr (l', r'), g')"
  shows "onmessage_part000 w rate data s
     = Return ()
         (s\<lparr>calls := calls s @ [GetSample (JFloat32Array a) (JFloat32Array b) (handle s)],
            wasm_inst := Some g',
            outbox := outbox s @
              [\<lparr>msg_data = JObject [(''buffers'', buffers)],
                msg_transfer = [JArrayBuffer a, JArrayBuffer b],
                msg_heap = (heap s)(a \<mapsto> l', b \<mapsto> r')\<rparr>],
            heap := (heap s)(a \<mapsto> l', b \<mapsto> r') |` (- {a, b})\<rparr>)"
proof -
  have tb: "truthy buffers" using assms(5) by (rule get_typed_array_truthy)
  have cf: "call_fill WasmGetSample w (JFloat32Array a) (JFloat32Array b) (handle s) s
     = Return () (s\<lparr>calls := calls s @ [GetSample (JFloat32Array a) (JFloat32Array b) (handle s)],
          wasm_inst := Some g', heap := (heap s)(a \<mapsto> l', b \<mapsto> r')\<rparr>)"
    using get_sample_ok [OF assms(8) assms(9) assms(10) assms(11)] .
  show ?thesis
    using assms(1-7) tb by (simp add: onmessage_part000_def cf postMessage_def)
qed

lemma typed_array_set_fields:
  fixes s :: "'s control"
  shows "outbox (state_of (typed_array_set t src s)) = outbox s"
    and "raf (state_of (typed_array_set t src s)) = raf s"
    and "elements (state_of (typed_array_set t src s)) = elements s"
    and "bufLeft (state_of (typed_array_set t src s)) = bufLeft s"
    and "bufRight (state_of (typed_array_set t src s)) = bufRight s"
  by (simp_all add: typed_array_set_def split: jsval.split option.split)

lemma ctl_onmessage_fields:
  "outbox (state_of (ctl_onmessage d s)) = outbox s"
  "raf (state_of (ctl_onmessage d s)) = raf s"
  "elements (state_of (ctl_onmessage d s)) = elements s"
proof -
  have "outbox (state_of (ctl_onmessage d s)) = outbox s
      \<and> raf (state_of (ctl_onmessage d s)) = raf s
      \<and> elements (state_of (ctl_onmessage d s)) = elements s"
  proof (cases "get d ''buffer''")
    case (Inl e)
    then show ?thesis by (simp add: ctl_onmessage_def)
  next
    case (Inr buffer)
    show ?thesis
    proof (cases "get buffer ''left''")
      case (Inl e)
      then show ?thesis using Inr by (simp add: ctl_onmessage_def)
    next
      case left: (Inr left)
      show ?thesis
      proof (cases "typed_array_set (bufLeft s) left s")
        case (Throw e s1)
        then show ?thesis
          using Inr left typed_array_set_fields(1-3) [of "bufLeft s" left s]
          by (simp add: ctl_onmessage_def)
      next
        case (Return u s1)
        then have s1: "outbox s1 = outbox s" "raf s1 = raf s" "elements s1 = elements s"
          using typed_array_set_fields(1-3) [of "bufLeft s" left s] by simp_all
        show ?thesis
          using Inr left Return s1
          by (simp add: ctl_onmessage_def typed_array_set_fields split: sum.split)
      qed
    qed
  qed
  then show "outbox (state_of (ctl_onmessage d s)) = outbox s"
    "raf (state_of (ctl_onmessage d s)) = raf s"
    "elements (state_of (ctl_onmessage d s)) = elements s" by simp_all
qed

lemma is_mirror_request_mirror:
  "is_mirror_request \<lparr>msg_data = mirror_request l r, msg_transfer = ts, msg_heap = h\<rparr>"
  by (simp add: is_mirror_request_def mirror_request_def)

lemma drawFrame_ok:
  assumes "elements s ''pathLeft'' = Some d1" and "elements s ''pathRight'' = Some d2"
  shows "drawFrame fa fs s
     = Return ()
         (s\<lparr>elements := (elements s)(''pathLeft'' \<mapsto> path_d fa fs (heap s) (bufLeft s),
                                       ''pathRight'' \<mapsto> path_d fa fs (heap s) (bufRight s)),
            raf := raf s + 1,
            outbox := outbox s @
              [\<lparr>msg_data = mirror_request (bufLeft s) (bufRight s), msg_transfer = [],
                msg_heap = heap s\<rparr>]\<rparr>)"
  using assms by (simp add: drawFrame_def setAttribute_d_def Let_def postMessage_copy)

lemma cfire_inv:
  assumes "ctl_inv c"
  shows "ctl_inv (cfire fa fs c ev)
       \<and> issued (cfire fa fs c ev) = issued c + (if ev = Frame then 1 else 0)"
proof (cases ev)
  case Frame
  obtain d1 d2 where e: "elements c ''pathLeft'' = Some d1" "elements c ''pathRight'' = Some d2"
    using assms by (auto simp add: ctl_inv_def)
  have r: "raf c = 1" using assms by (simp add: ctl_inv_def)
  let ?c = "c\<lparr>raf := raf c - 1\<rparr>"
  have "elements ?c ''pathLeft'' = Some d1" "elements ?c ''pathRight'' = Some d2"
    using e by simp_all
  from drawFrame_ok [OF this, of fa fs] show ?thesis
    using Frame r by (simp add: ctl_inv_def issued_def is_mirror_request_mirror)
next
  case (Reply d h)
  then show ?thesis
    using assms by (simp add: ctl_inv_def issued_def ctl_onmessage_fields)
qed

lemma crun_issued:
  "ctl_inv c \<Longrightarrow> issued (crun fa fs evs c) = issued c + count_list evs Frame"
proof (induction evs arbitrary: c)
  case Nil
  then show ?case by (simp add: crun_def)
next
  case (Cons ev evs)
  have a: "ctl_inv (cfire fa fs c ev)"
    and b: "issued (cfire fa fs c ev) = issued c + (if ev = Frame then 1 else 0)"
    using cfire_inv [OF Cons.prems, of fa fs ev] by simp_all
  have "crun fa fs (ev # evs) c = crun fa fs evs (cfire fa fs c ev)"
    by (simp add: crun_def)
  then show ?case using Cons.IH [OF a] b by simp
qed

lemma startup_ok:
  assumes "els ''play'' = Some p0"
  shows "startup z wb els
     = Return ()
         \<lparr>heap = [0 \<mapsto> wb, 1 \<mapsto> replicate size_buf z, 2 \<mapsto> replicate size_buf z],
          outbox = [\<lparr>msg_data = JObject [(''wasm'', JArrayBuffer 0)], msg_transfer = [],
                      msg_heap = [0 \<mapsto> wb]\<rparr>,
                    \<lparr>msg_data = mirror_request 1 2, msg_transfer = [],
                      msg_heap = [0 \<mapsto> wb, 1 \<mapsto> replicate size_buf z,
                                  2 \<mapsto> replicate size_buf z]\<rparr>],
          bufLeft = 1, bufRight = 2, elements = els, raf = 1\<rparr>"
  using assms by (simp add: startup_def Let_def postMessage_copy)

lemma typed_array_set_ok:
  assumes "heap s t = Some tv" and "heap s a = Some sv" and "length sv \<le> length tv"
  shows "typed_array_set t (JFloat32Array a) s
     = Return () (s\<lparr>heap := (heap s)(t \<mapsto> sv @ drop (length sv) tv)\<rparr>)"
  using assms by (simp add: typed_array_set_def)

lemma test_started_eq:
  "test_started
     = \<lparr>heap = [0 \<mapsto> [], 1 \<mapsto> replicate size_buf 0, 2 \<mapsto> replicate size_buf 0],
        outbox = [\<lparr>msg_data = JObject [(''wasm'', JArrayBuffer 0)], msg_transfer = [],
                    msg_heap = [0 \<mapsto> []]\<rparr>,
                  \<lparr>msg_data = mirror_request 1 2, msg_transfer = [],
                    msg_heap = [0 \<mapsto> [], 1 \<mapsto> replicate size_buf 0,
                                2 \<mapsto> replicate size_buf 0]\<rparr>],
        bufLeft = 1, bufRight = 2, elements = test_doc, raf = 1\<rparr>"
proof -
  have "test_doc ''play'' = Some []" by (simp add: test_doc_def)
  from startup_ok [where els = test_doc and z = "0::nat" and wb = "[]", OF this]
  show ?thesis by (simp add: test_started_def)
qed

lemma test_replied_eq:
  "test_replied
     = \<lparr>heap = [0 \<mapsto> [], 1 \<mapsto> replicate size_buf 0, 2 \<mapsto> replicate size_buf 0,
                10 \<mapsto> replicate size_buf 5, 11 \<mapsto> replicate size_buf 6],
        outbox = outbox test_started,
        bufLeft = 1, bufRight = 2, elements = test_doc, raf = 1\<rparr>"
proof -
  have "test_reply_heap ++ [0 \<mapsto> [], 1 \<mapsto> replicate size_buf 0, 2 \<mapsto> replicate size_buf 0]
      = [0 \<mapsto> [], 1 \<mapsto> replicate size_buf 0, 2 \<mapsto> replicate size_buf 0,
         10 \<mapsto> replicate size_buf 5, 11 \<mapsto> replicate size_buf 6]"
    by (rule ext) (simp add: test_reply_heap_def map_add_def)
  then show ?thesis by (simp add: test_replied_def test_started_eq)
qed

section \<open>Results\<close>

text \<open>
  C1, as stated: at most one mirror request is ever in flight, a new one being issued
  only after the reply to the previous one has arrived. The script posts a request at
  startup and \<open>drawFrame\<close> posts another on every animation frame without looking at
  replies: after startup and one frame, with no reply delivered yet, two requests are in
  flight.
\<close>

theorem C1_two_in_flight_counterexample:
  "in_flight (\<lambda>i. []) (\<lambda>x. []) test_started [Frame] = 2"
proof -
  have "startup (0::nat) [] test_doc
     = Return ()
         \<lparr>heap = [0 \<mapsto> [], 1 \<mapsto> replicate size_buf 0, 2 \<mapsto> replicate size_buf 0],
          outbox = [\<lparr>msg_data = JObject [(''wasm'', JArrayBuffer 0)], msg_transfer = [],
                      msg_heap = [0 \<mapsto> []]\<rparr>,
                    \<lparr>msg_data = mirror_request 1 2, msg_transfer = [],
                      msg_heap = [0 \<mapsto> [], 1 \<mapsto> replicate size_buf 0,
                                  2 \<mapsto> replicate size_buf 0]\<rparr>],
          bufLeft = 1, bufRight = 2, elements = test_doc, raf = 1\<rparr>"
    by (rule startup_ok [of test_doc "[]"]) (simp add: test_doc_def)
  then show ?thesis
    by (simp add: test_started_def in_flight_def crun_def issued_def
          drawFrame_def setAttribute_d_def postMessage_copy test_doc_def
          is_mirror_request_def mirror_request_def)
qed

text \<open>
  C1, amended: after startup the control script issues one mirror request per animation
  frame, whether or not a reply has arrived, and the delivery of a reply issues none. On
  a document with the \<open>play\<close>, \<open>pathLeft\<close> and \<open>pathRight\<close> elements, after any
  sequence of frames and replies the number of requests issued is one more than the
  number of frames, and the number in flight is that less the replies delivered.
\<close>

theorem C1_request_per_frame:
  assumes "els ''play'' = Some p0"
    and "els ''pathLeft'' = Some p1" and "els ''pathRight'' = Some p2"
  shows "issued (crun fa fs evs (state_of (startup z wb els))) = 1 + count_list evs Frame
       \<and> in_flight fa fs (state_of (startup z wb els)) evs
           = 1 + int (count_list evs Frame) - int (length (filter is_reply evs))
       \<and> outbox (cfire fa fs c (Reply d h)) = outbox c"
proof -
  let ?c0 = "state_of (startup z wb els)"
  have i: "ctl_inv ?c0" using assms by (simp add: startup_ok ctl_inv_def)
  have "issued ?c0 = 1"
    using assms(1)
    by (simp add: startup_ok issued_def is_mirror_request_def mirror_request_def)
  then have a: "issued (crun fa fs evs ?c0) = 1 + count_list evs Frame"
    using crun_issued [OF i, of fa fs evs] by simp
  then show ?thesis by (simp add: in_flight_def ctl_onmessage_fields)
qed

theorem C1_request_per_frame_witness:
  "test_doc ''play'' = Some [] \<and> test_doc ''pathLeft'' = Some [] \<and> test_doc ''pathRight'' = Some []
   \<and> issued (crun (\<lambda>i. []) (\<lambda>x. [])
        [Frame, Reply (mirror_request 10 11) test_reply_heap, Frame]
        (state_of (startup (0::nat) [] test_doc))) = 3
   \<and> in_flight (\<lambda>i. []) (\<lambda>x. []) (state_of (startup (0::nat) [] test_doc))
        [Frame, Reply (mirror_request 10 11) test_reply_heap, Frame] = 2"
proof -
  have h1: "test_doc ''play'' = Some []" by (simp add: test_doc_def)
  have h2: "test_doc ''pathLeft'' = Some []" by (simp add: test_doc_def)
  have h3: "test_doc ''pathRight'' = Some []" by (simp add: test_doc_def)
  from C1_request_per_frame [OF h1 h2 h3, where fa = "\<lambda>i. []" and fs = "\<lambda>x. []"
      and evs = "[Frame, Reply (mirror_request 10 11) test_reply_heap, Frame]"
      and z = "0::nat" and wb = "[]"]
    h1 h2 h3
  show ?thesis by simp
qed

text \<open>
  C2, as stated: a mirror request delivered before a handle exists is answered with a
  reply whose buffers are unchanged. Both versions of the handler guard the mirror
  branch with \<open>this.handle &&\<close>, so at the constructor's state a well-formed request
  produces no reply at all.
\<close>

theorem C2_no_reply_counterexample:
  "outbox (state_of (onmessage test_wasm (JNum 48000) (mirror_request 10 11)
      (constructor test_heap))) = []
   \<and> outbox (state_of (onmessage_part000 test_wasm (JNum 48000) test_request_part000
      (constructor test_heap))) = []"
  by (simp add: onmessage_def onmessage_part000_def mirror_request_def
        test_request_part000_def constructor_def)

text \<open>
  C2, amended: for every mirror request delivered while no handle exists, in either
  version of the handler, no reply is posted and the buffers in the heap are unchanged.
\<close>

theorem C2_uninitialized_no_reply:
  assumes "\<not> truthy (handle s)"
    and "get data ''wasm'' = Inr v" and "\<not> truthy v"
  shows "outbox (state_of (onmessage w rate data s)) = outbox s
       \<and> heap (state_of (onmessage w rate data s)) = heap s
       \<and> outbox (state_of (onmessage_part000 w rate data s)) = outbox s
       \<and> heap (state_of (onmessage_part000 w rate data s)) = heap s"
  using assms by (simp add: onmessage_def onmessage_part000_def)

theorem C2_uninitialized_no_reply_witness:
  "\<not> truthy (handle (constructor test_heap :: (nat, nat) processor))
   \<and> get test_request_part000 ''wasm'' = Inr JUndefined \<and> \<not> truthy JUndefined
   \<and> outbox (state_of (onmessage_part000 test_wasm (JNum 48000) test_request_part000
        (constructor test_heap))) = []
   \<and> heap (state_of (onmessage_part000 test_wasm (JNum 48000) test_request_part000
        (constructor test_heap))) = test_heap"
proof -
  have h1: "\<not> truthy (handle (constructor test_heap :: (nat, nat) processor))"
    by (simp add: constructor_def)
  have h2: "get test_request_part000 ''wasm'' = Inr JUndefined"
    by (simp add: test_request_part000_def)
  have h3: "\<not> truthy JUndefined" by simp
  have c: "outbox (constructor test_heap :: (nat, nat) processor) = []"
    "heap (constructor test_heap :: (nat, nat) processor) = test_heap"
    by (simp_all add: constructor_def)
  from C2_uninitialized_no_reply [OF h1 h2 h3, of test_wasm "JNum 48000"] h1 h2 h3 c
  show ?thesis by simp
qed

text \<open>
  C3. A mirror request (a message whose \<open>wasm\<close> field is not truthy) that arrives while
  \<open>this.handle\<close> is not set is ignored by src/worklet.js: the handler returns without
  throwing and leaves the whole state as it was, so no module state is created or
  changed, no call is made into the module, no buffer is written and nothing is posted.
\<close>

theorem C3_uninitialized_mirror_ignored:
  assumes "\<not> truthy (handle s)"
    and "get data ''wasm'' = Inr v" and "\<not> truthy v"
  shows "onmessage w sampleRate data s = Return () s"
  using assms by (simp add: onmessage_def)

theorem C3_uninitialized_mirror_ignored_witness:
  "\<not> truthy (handle (constructor test_heap :: (nat, nat) processor))
   \<and> get (mirror_request 10 11) ''wasm'' = Inr JUndefined \<and> \<not> truthy JUndefined
   \<and> onmessage test_wasm (JNum 48000) (mirror_request 10 11) (constructor test_heap)
       = Return () (constructor test_heap)"
proof -
  have h1: "\<not> truthy (handle (constructor test_heap :: (nat, nat) processor))"
    by (simp add: constructor_def)
  have h2: "get (mirror_request 10 11) ''wasm'' = Inr JUndefined"
    by (simp add: mirror_request_def)
  have h3: "\<not> truthy JUndefined" by simp
  from C3_uninitialized_mirror_ignored [OF h1 h2 h3] h1 h2 h3 show ?thesis by blast
qed

text \<open>
  C4. An audio callback that finds no handle leaves everything, the output block
  included, as it was, throws nothing and returns \<open>true\<close>. In no state does the
  callback return \<open>false\<close>: its only exit besides \<open>return true\<close> is an exception out
  of the call of \<open>this.processFn\<close>. In every state the processor can reach from its
  constructor, with a handle set, an instantiated module and a block of two channels
  from the host, the callback returns \<open>true\<close> as soon as the module's \<open>process\<close> returns.
\<close>

theorem C4_process_keeps_running:
  "(\<not> truthy (handle s) \<longrightarrow> process w outputs s = Return True s)
   \<and> process w outputs s \<noteq> Return False s'
   \<and> ((hm = onmessage \<or> hm = onmessage_part000)
        \<and> t = (run hm w rate evs (constructor h0))\<lparr>heap := hp\<rparr>
        \<and> truthy (handle t) \<and> wasm_inst t = Some g
        \<and> hp a = Some l \<and> hp b = Some r
        \<and> wasm_process w l r (handle t) g = (Inr (l', r'), g')
      \<longrightarrow> process w ((JFloat32Array a # JFloat32Array b # chans) # blocks) t
          = Return True
              (t\<lparr>calls := calls t @ [Process (JFloat32Array a) (JFloat32Array b) (handle t)],
                 wasm_inst := Some g', heap := hp(a \<mapsto> l', b \<mapsto> r')\<rparr>))"
proof (intro conjI impI)
  assume "\<not> truthy (handle s)"
  then show "process w outputs s = Return True s" by (simp add: process_def)
next
  show "process w outputs s \<noteq> Return False s'"
    by (simp add: process_def Let_def split: option.split outcome.split list.split)
next
  assume a: "(hm = onmessage \<or> hm = onmessage_part000)
        \<and> t = (run hm w rate evs (constructor h0))\<lparr>heap := hp\<rparr>
        \<and> truthy (handle t) \<and> wasm_inst t = Some g
        \<and> hp a = Some l \<and> hp b = Some r
        \<and> wasm_process w l r (handle t) g = (Inr (l', r'), g')"
  let ?u = "run hm w rate evs (constructor h0)"
  have hm: "hm = onmessage \<or> hm = onmessage_part000" using a by blast
  have init: "truthy (handle (constructor h0 :: ('a, 'b) processor))
      \<longrightarrow> processFn (constructor h0 :: ('a, 'b) processor) = Some WasmProcess"
    by (simp add: constructor_fields)
  have "truthy (handle ?u) \<longrightarrow> processFn ?u = Some WasmProcess"
    using run_processFn [OF hm init] .
  moreover have teq: "t = ?u\<lparr>heap := hp\<rparr>" using a by blast
  moreover have th: "truthy (handle t)" using a by blast
  ultimately have pf: "processFn t = Some WasmProcess" by simp
  have hp: "heap t = hp" by (simp add: teq)
  have rest: "wasm_inst t = Some g" "hp a = Some l" "hp b = Some r"
    "wasm_process w l r (handle t) g = (Inr (l', r'), g')" using a by blast+
  show "process w ((JFloat32Array a # JFloat32Array b # chans) # blocks) t
          = Return True
              (t\<lparr>calls := calls t @ [Process (JFloat32Array a) (JFloat32Array b) (handle t)],
                 wasm_inst := Some g', heap := hp(a \<mapsto> l', b \<mapsto> r')\<rparr>)"
    using process_ready [of t g a l b r w l' r' g' chans blocks] th pf hp rest by simp
qed


theorem C4_process_keeps_running_witness:
  "\<not> truthy (handle (constructor test_heap :: (nat, nat) processor))
   \<and> process test_wasm [[JFloat32Array 10, JFloat32Array 11]] (constructor test_heap)
       = Return True (constructor test_heap)
   \<and> truthy (handle test_booted) \<and> wasm_inst test_booted = Some 5
   \<and> test_heap 10 = Some [0, 0, 0] \<and> test_heap 11 = Some [0, 0, 0]
   \<and> wasm_process test_wasm [0, 0, 0] [0, 0, 0] (handle test_booted) 5
       = (Inr ([5, 5, 5], [6, 6, 6]), 7)
   \<and> process test_wasm [[JFloat32Array 10, JFloat32Array 11]] test_booted
       = Return True
           (test_booted\<lparr>calls := calls test_booted
                  @ [Process (JFloat32Array 10) (JFloat32Array 11) (handle test_booted)],
              wasm_inst := Some 7, heap := test_heap(10 \<mapsto> [5, 5, 5], 11 \<mapsto> [6, 6, 6])\<rparr>)"
proof -
  have u: "\<not> truthy (handle (constructor test_heap :: (nat, nat) processor))"
    by (simp add: constructor_def)
  have t: "test_booted = (run onmessage test_wasm (JNum 48000) [Message test_bootstrap Map.empty]
        (constructor Map.empty))\<lparr>heap := test_heap\<rparr>"
    by (simp add: test_booted_def)
  have h: "truthy (handle test_booted)" "wasm_inst test_booted = Some 5"
    by (simp_all add: test_booted_eq test_ready_def)
  have m: "test_heap 10 = Some [0, 0, 0]" "test_heap 11 = Some [0, 0, 0]"
    by (simp_all add: test_heap_def)
  have f: "wasm_process test_wasm [0, 0, 0] [0, 0, 0] (handle test_booted) 5
       = (Inr ([5, 5, 5], [6, 6, 6]), 7)"
    by (simp add: test_wasm_def test_fill_def numeral_3_eq_3)
  from C4_process_keeps_running [where s = "constructor test_heap" and w = test_wasm
      and outputs = "[[JFloat32Array 10, JFloat32Array 11]]" and hm = onmessage
      and t = test_booted and rate = "JNum 48000" and evs = "[Message test_bootstrap Map.empty]"
      and ?h0.0 = Map.empty and hp = test_heap and g = 5 and a = 10 and l = "[0, 0, 0]"
      and b = 11 and r = "[0, 0, 0]" and l' = "[5, 5, 5]" and r' = "[6, 6, 6]" and g' = 7
      and chans = "[]" and blocks = "[]"]
    u t h m f
  show ?thesis by simp
qed

text \<open>
  C5. A message of src/worklet.js whose \<open>wasm\<close> field is a payload is a bootstrap: the
  handler calls \<open>initSync\<close> with \<open>{module: payload}\<close>, then \<open>new_handle\<close> with the
  ambient \<open>sampleRate\<close>, stores \<open>wasm.process\<close> and the handle returned, and so has a
  handle from then on. After it, whatever messages and callbacks follow, every audio
  callback on a block of two channels calls the module's \<open>process\<close> with both channels
  and the stored handle and writes what it produces into both. The module is a parameter:
  the statement is for an instantiation and calls that return, and for handles that are
  truthy.
\<close>

theorem C5_bootstrap_then_fill:
  assumes "get data ''wasm'' = Inr p" and "truthy p"
    and "initSync w (JObject [(''module'', p)]) (heap s) (wasm_inst s) = (Inr (), Some g)"
    and "new_handle w sampleRate g = (Inr h, g1)"
    and "\<And>g h g'. new_handle w sampleRate g = (Inr h, g') \<Longrightarrow> truthy h"
    and "s' = s\<lparr>calls := calls s @ [InitSync (JObject [(''module'', p)]), NewHandle sampleRate],
                 wasm_inst := Some g1, processFn := Some WasmProcess, handle := h\<rparr>"
    and "t = (run onmessage w sampleRate evs s')\<lparr>heap := hp\<rparr>"
    and "wasm_inst t = Some g2" and "hp a = Some l" and "hp b = Some r"
    and "wasm_process w l r (handle t) g2 = (Inr (l', r'), g3)"
  shows "onmessage w sampleRate data s = Return () s'
       \<and> truthy (handle s')
       \<and> truthy (handle t)
       \<and> process w ((JFloat32Array a # JFloat32Array b # chans) # blocks) t
           = Return True
               (t\<lparr>calls := calls t @ [Process (JFloat32Array a) (JFloat32Array b) (handle t)],
                  wasm_inst := Some g3, heap := hp(a \<mapsto> l', b \<mapsto> r')\<rparr>)"
proof -
  let ?u = "run onmessage w sampleRate evs s'"
  have b: "onmessage w sampleRate data s = Return () s'"
    using assms(1,2) bootstrap_ok [OF assms(3) assms(4)] assms(6) by (simp add: onmessage_def)
  have hs: "truthy (handle s')" using assms(5) [OF assms(4)] assms(6) by simp
  have hu: "truthy (handle ?u)"
    using run_handle [OF assms(5) _ hs, where hm = onmessage and evs = evs] by simp
  have "truthy (handle s') \<longrightarrow> processFn s' = Some WasmProcess" using assms(6) by simp
  then have "truthy (handle ?u) \<longrightarrow> processFn ?u = Some WasmProcess"
    using run_processFn [where hm = onmessage and s = s' and w = w and evs = evs] by simp
  then have pu: "processFn ?u = Some WasmProcess" using hu by simp
  have ht: "truthy (handle t)" and pt: "processFn t = Some WasmProcess" and hp: "heap t = hp"
    using hu pu by (simp_all add: assms(7))
  have "process w ((JFloat32Array a # JFloat32Array b # chans) # blocks) t
           = Return True
               (t\<lparr>calls := calls t @ [Process (JFloat32Array a) (JFloat32Array b) (handle t)],
                  wasm_inst := Some g3, heap := (heap t)(a \<mapsto> l', b \<mapsto> r')\<rparr>)"
    using process_ready [OF ht pt assms(8) _ _ assms(11), of a b chans blocks] assms(9,10) hp
    by simp
  then show ?thesis using b hs ht hp by simp
qed

theorem C5_bootstrap_then_fill_witness:
  "get test_bootstrap ''wasm'' = Inr (JArrayBuffer 0) \<and> truthy (JArrayBuffer 0)
   \<and> initSync test_wasm (JObject [(''module'', JArrayBuffer 0)])
        (heap (constructor Map.empty :: (nat, nat) processor))
        (wasm_inst (constructor Map.empty :: (nat, nat) processor)) = (Inr (), Some 5)
   \<and> new_handle test_wasm (JNum 48000) 5 = (Inr (JNum 1), 5)
   \<and> truthy (JNum 1)
   \<and> wasm_inst test_booted = Some 5
   \<and> test_heap 10 = Some [0, 0, 0] \<and> test_heap 11 = Some [0, 0, 0]
   \<and> wasm_process test_wasm [0, 0, 0] [0, 0, 0] (handle test_booted) 5
       = (Inr ([5, 5, 5], [6, 6, 6]), 7)
   \<and> onmessage test_wasm (JNum 48000) test_bootstrap (constructor Map.empty)
       = Return ()
          ((constructor Map.empty)\<lparr>calls := [InitSync (JObject [(''module'', JArrayBuffer 0)]),
                NewHandle (JNum 48000)],
              wasm_inst := Some 5, processFn := Some WasmProcess, handle := JNum 1\<rparr>)
   \<and> truthy (handle test_booted)
   \<and> process test_wasm [[JFloat32Array 10, JFloat32Array 11]] test_booted
       = Return True
           (test_booted\<lparr>calls := calls test_booted
                  @ [Process (JFloat32Array 10) (JFloat32Array 11) (handle test_booted)],
              wasm_inst := Some 7, heap := test_heap(10 \<mapsto> [5, 5, 5], 11 \<mapsto> [6, 6, 6])\<rparr>)"
proof -
  let ?c = "constructor Map.empty :: (nat, nat) processor"
  let ?s' = "?c\<lparr>calls := calls ?c @ [InitSync (JObject [(''module'', JArrayBuffer 0)]),
                NewHandle (JNum 48000)],
              wasm_inst := Some 5, processFn := Some WasmProcess, handle := JNum 1\<rparr>"
  have h1: "get test_bootstrap ''wasm'' = Inr (JArrayBuffer 0)"
    by (simp add: test_bootstrap_def)
  have h2: "truthy (JArrayBuffer 0)" by simp
  have h3: "initSync test_wasm (JObject [(''module'', JArrayBuffer 0)]) (heap ?c) (wasm_inst ?c)
      = (Inr (), Some 5)"
    by (simp add: test_wasm_def)
  have h4: "new_handle test_wasm (JNum 48000) 5 = (Inr (JNum 1), 5)"
    by (simp add: test_wasm_def)
  have h5: "\<And>g h g'. new_handle test_wasm (JNum 48000) g = (Inr h, g') \<Longrightarrow> truthy h"
    by (auto simp add: test_wasm_def)
  have h6: "?s' = ?s'" by simp
  have h7: "test_booted = (run onmessage test_wasm (JNum 48000) [] ?s')\<lparr>heap := test_heap\<rparr>"
    by (simp add: test_booted_eq test_ready_def run_def constructor_def)
  have h8: "wasm_inst test_booted = Some 5" by (simp add: test_booted_eq test_ready_def)
  have h9: "test_heap 10 = Some [0, 0, 0]" "test_heap 11 = Some [0, 0, 0]"
    by (simp_all add: test_heap_def)
  have h10: "wasm_process test_wasm [0, 0, 0] [0, 0, 0] (handle test_booted) 5
       = (Inr ([5, 5, 5], [6, 6, 6]), 7)"
    by (simp add: test_wasm_def test_fill_def numeral_3_eq_3)
  have c: "calls ?c = []" by (simp add: constructor_def)
  from C5_bootstrap_then_fill [where chans = "[]" and blocks = "[]",
      OF h1 h2 h3 h4 h5 h6 h7 h8 h9 h10]
    h1 h2 h3 h4 h8 h9 h10 c
  show ?thesis by simp
qed

text \<open>
  C6, as stated: on every reply the handler copies the samples and then issues the next
  mirror request, as one step. The handler of the control script only copies: on the
  started page, a well-formed reply fills \<open>bufLeft\<close> and \<open>bufRight\<close> and the port
  still holds the two messages of startup and no other.
\<close>

theorem C6_no_request_counterexample:
  "map msg_data (outbox test_replied) = [JObject [(''wasm'', JArrayBuffer 0)], mirror_request 1 2]
   \<and> map msg_data (outbox (state_of (ctl_onmessage (mirror_request 10 11) test_replied)))
       = [JObject [(''wasm'', JArrayBuffer 0)], mirror_request 1 2]
   \<and> heap (state_of (ctl_onmessage (mirror_request 10 11) test_replied)) 1
       = Some (replicate size_buf 5)
   \<and> heap (state_of (ctl_onmessage (mirror_request 10 11) test_replied)) 2
       = Some (replicate size_buf 6)"
  by (simp add: ctl_onmessage_def mirror_request_def typed_array_set_def
        test_replied_eq test_started_eq)

text \<open>
  C6, amended: for every mirror reply whose two arrays fit, the handler copies the
  returned samples over the front of \<open>bufLeft\<close> and \<open>bufRight\<close> and does nothing else.
  The next mirror request is issued by \<open>drawFrame\<close>, on the next animation frame, as a
  new message that names the same two arrays.
\<close>

theorem C6_reply_copies_frame_requests:
  assumes "get data ''buffer'' = Inr buffer"
    and "get buffer ''left'' = Inr (JFloat32Array a)"
    and "get buffer ''right'' = Inr (JFloat32Array b)"
    and "heap s a = Some l" and "heap s b = Some r"
    and "heap s (bufLeft s) = Some dl" and "heap s (bufRight s) = Some dr"
    and "length l \<le> length dl" and "length r \<le> length dr"
    and "b \<noteq> bufLeft s" and "bufLeft s \<noteq> bufRight s"
    and "elements s ''pathLeft'' = Some d1" and "elements s ''pathRight'' = Some d2"
  shows "ctl_onmessage data s
      = Return ()
          (s\<lparr>heap := (heap s)(bufLeft s \<mapsto> l @ drop (length l) dl,
                               bufRight s \<mapsto> r @ drop (length r) dr)\<rparr>)
    \<and> drawFrame fa fs s
      = Return ()
          (s\<lparr>elements := (elements s)(''pathLeft'' \<mapsto> path_d fa fs (heap s) (bufLeft s),
                                        ''pathRight'' \<mapsto> path_d fa fs (heap s) (bufRight s)),
             raf := raf s + 1,
             outbox := outbox s @
               [\<lparr>msg_data = mirror_request (bufLeft s) (bufRight s), msg_transfer = [],
                 msg_heap = heap s\<rparr>]\<rparr>)"
proof
  let ?s1 = "s\<lparr>heap := (heap s)(bufLeft s \<mapsto> l @ drop (length l) dl)\<rparr>"
  have one: "typed_array_set (bufLeft s) (JFloat32Array a) s = Return () ?s1"
    using typed_array_set_ok [OF assms(6) assms(4) assms(8)] .
  have "heap ?s1 (bufRight ?s1) = Some dr" "heap ?s1 b = Some r"
    using assms(5,7,10,11) by simp_all
  from typed_array_set_ok [OF this assms(9)]
  have two: "typed_array_set (bufRight ?s1) (JFloat32Array b) ?s1
      = Return () (s\<lparr>heap := (heap s)(bufLeft s \<mapsto> l @ drop (length l) dl,
                               bufRight s \<mapsto> r @ drop (length r) dr)\<rparr>)"
    by simp
  show "ctl_onmessage data s
      = Return ()
          (s\<lparr>heap := (heap s)(bufLeft s \<mapsto> l @ drop (length l) dl,
                               bufRight s \<mapsto> r @ drop (length r) dr)\<rparr>)"
    using assms(1-3) one two by (simp add: ctl_onmessage_def)
next
  show "drawFrame fa fs s
      = Return ()
          (s\<lparr>elements := (elements s)(''pathLeft'' \<mapsto> path_d fa fs (heap s) (bufLeft s),
                                        ''pathRight'' \<mapsto> path_d fa fs (heap s) (bufRight s)),
             raf := raf s + 1,
             outbox := outbox s @
               [\<lparr>msg_data = mirror_request (bufLeft s) (bufRight s), msg_transfer = [],
                 msg_heap = heap s\<rparr>]\<rparr>)"
    using assms(12,13) by (rule drawFrame_ok)
qed

theorem C6_reply_copies_frame_requests_witness:
  "get (mirror_request 10 11) ''buffer''
       = Inr (JObject [(''left'', JFloat32Array 10), (''right'', JFloat32Array 11)])
   \<and> get (JObject [(''left'', JFloat32Array 10), (''right'', JFloat32Array 11)]) ''left''
       = Inr (JFloat32Array 10)
   \<and> get (JObject [(''left'', JFloat32Array 10), (''right'', JFloat32Array 11)]) ''right''
       = Inr (JFloat32Array 11)
   \<and> heap test_replied 10 = Some (replicate size_buf 5)
   \<and> heap test_replied 11 = Some (replicate size_buf 6)
   \<and> heap test_replied (bufLeft test_replied) = Some (replicate size_buf 0)
   \<and> heap test_replied (bufRight test_replied) = Some (replicate size_buf 0)
   \<and> length (replicate size_buf (5::nat)) \<le> length (replicate size_buf (0::nat))
   \<and> length (replicate size_buf (6::nat)) \<le> length (replicate size_buf (0::nat))
   \<and> 11 \<noteq> bufLeft test_replied \<and> bufLeft test_replied \<noteq> bufRight test_replied
   \<and> elements test_replied ''pathLeft'' = Some []
   \<and> elements test_replied ''pathRight'' = Some []
   \<and> ctl_onmessage (mirror_request 10 11) test_replied
      = Return ()
          (test_replied\<lparr>heap := (heap test_replied)(1 \<mapsto> replicate size_buf 5,
                                                     2 \<mapsto> replicate size_buf 6)\<rparr>)
   \<and> outbox (state_of (drawFrame (\<lambda>i. []) (\<lambda>x. []) test_replied))
      = outbox test_started
          @ [\<lparr>msg_data = mirror_request 1 2, msg_transfer = [], msg_heap = heap test_replied\<rparr>]"
proof -
  have h1: "get (mirror_request 10 11) ''buffer''
       = Inr (JObject [(''left'', JFloat32Array 10), (''right'', JFloat32Array 11)])"
    by (simp add: mirror_request_def)
  have h2: "get (JObject [(''left'', JFloat32Array 10), (''right'', JFloat32Array 11)]) ''left''
       = Inr (JFloat32Array 10)" by simp
  have h3: "get (JObject [(''left'', JFloat32Array 10), (''right'', JFloat32Array 11)]) ''right''
       = Inr (JFloat32Array 11)" by simp
  have h4: "heap test_replied 10 = Some (replicate size_buf 5)"
    by (simp add: test_replied_eq)
  have h5: "heap test_replied 11 = Some (replicate size_buf 6)"
    by (simp add: test_replied_eq)
  have h6: "heap test_replied (bufLeft test_replied) = Some (replicate size_buf 0)"
    by (simp add: test_replied_eq)
  have h7: "heap test_replied (bufRight test_replied) = Some (replicate size_buf 0)"
    by (simp add: test_replied_eq)
  have h8: "length (replicate size_buf (5::nat)) \<le> length (replicate size_buf (0::nat))"
    by simp
  have h9: "length (replicate size_buf (6::nat)) \<le> length (replicate size_buf (0::nat))"
    by simp
  have h10: "11 \<noteq> bufLeft test_replied" by (simp add: test_replied_eq)
  have h11: "bufLeft test_replied \<noteq> bufRight test_replied"
    by (simp add: test_replied_eq)
  have h12: "elements test_replied ''pathLeft'' = Some []"
    by (simp add: test_replied_eq test_doc_def)
  have h13: "elements test_replied ''pathRight'' = Some []"
    by (simp add: test_replied_eq test_doc_def)
  from C6_reply_copies_frame_requests [OF h1 h2 h3 h4 h5 h6 h7 h8 h9 h10 h11 h12 h13,
      where fa = "\<lambda>i. []" and fs = "\<lambda>x. []"]
    h1 h2 h3 h4 h5 h6 h7 h8 h9 h10 h11 h12 h13
  show ?thesis by (simp add: test_replied_eq)
qed

text \<open>
  C7, as stated: in every mirror exchange the storage of the buffers is transferred to
  the processor and transferred back on reply, not copied. The control script posts its
  requests with no transfer list, and src/worklet.js posts its reply with no transfer
  list: the messages below carry empty transfer lists, and the processor still holds the
  filled array after it has replied.
\<close>

theorem C7_copied_counterexample:
  "map msg_transfer (outbox (state_of (startup (0::nat) [] test_doc))) = [[], []]
   \<and> map msg_transfer (outbox (state_of
        (onmessage test_wasm (JNum 48000) (mirror_request 10 11) test_ready))) = [[]]
   \<and> heap (state_of (onmessage test_wasm (JNum 48000) (mirror_request 10 11) test_ready)) 10
       = Some [5, 5, 5]"
  by (simp add: startup_def postMessage_copy test_doc_def onmessage_def mirror_request_def
        test_ready_def call_fill_def test_wasm_def test_fill_def test_heap_def numeral_3_eq_3)

text \<open>
  C7, amended: only the reply of src/unnamed/part\_000 moves storage. Its reply names the
  \<open>ArrayBuffer\<close>s of the left and right arrays in the transfer list, and they leave the
  processor's heap. Every message posted by the handler of src/worklet.js, by
  \<open>drawFrame\<close> and by the startup of the control script has an empty transfer list, so
  there the contents are copied, in both directions.
\<close>

theorem C7_only_part000_reply_transfers:
  assumes "truthy (handle s)"
    and "get data ''wasm'' = Inr v" and "\<not> truthy v"
    and "get data ''buffers'' = Inr buffers"
    and "get buffers ''left'' = Inr (JFloat32Array a)"
    and "get buffers ''right'' = Inr (JFloat32Array b)"
    and "a \<noteq> b"
    and "wasm_inst s = Some g" and "heap s a = Some l" and "heap s b = Some r"
    and "get_sample w l r (handle s) g = (Inr (l', r'), g')"
  shows "onmessage_part000 w rate data s
     = Return ()
         (s\<lparr>calls := calls s @ [GetSample (JFloat32Array a) (JFloat32Array b) (handle s)],
            wasm_inst := Some g',
            outbox := outbox s @
              [\<lparr>msg_data = JObject [(''buffers'', buffers)],
                msg_transfer = [JArrayBuffer a, JArrayBuffer b],
                msg_heap = (heap s)(a \<mapsto> l', b \<mapsto> r')\<rparr>],
            heap := (heap s)(a \<mapsto> l', b \<mapsto> r') |` (- {a, b})\<rparr>)
    \<and> msg_transfer ` set (outbox (state_of (onmessage w2 rate2 data2 s2)))
         \<subseteq> insert [] (msg_transfer ` set (outbox s2))
    \<and> msg_transfer ` set (outbox (state_of (drawFrame fa fs c)))
         \<subseteq> insert [] (msg_transfer ` set (outbox c))
    \<and> msg_transfer ` set (outbox (state_of (startup z wb els))) \<subseteq> {[]}"
proof (intro conjI)
  show "onmessage_part000 w rate data s
     = Return ()
         (s\<lparr>calls := calls s @ [GetSample (JFloat32Array a) (JFloat32Array b) (handle s)],
            wasm_inst := Some g',
            outbox := outbox s @
              [\<lparr>msg_data = JObject [(''buffers'', buffers)],
                msg_transfer = [JArrayBuffer a, JArrayBuffer b],
                msg_heap = (heap s)(a \<mapsto> l', b \<mapsto> r')\<rparr>],
            heap := (heap s)(a \<mapsto> l', b \<mapsto> r') |` (- {a, b})\<rparr>)"
    using assms by (rule part000_reply)
next
  show "msg_transfer ` set (outbox (state_of (onmessage w2 rate2 data2 s2)))
         \<subseteq> insert [] (msg_transfer ` set (outbox s2))"
    using onmessage_outbox [of w2 rate2 data2 s2] by auto
next
  show "msg_transfer ` set (outbox (state_of (drawFrame fa fs c)))
         \<subseteq> insert [] (msg_transfer ` set (outbox c))"
    using drawFrame_outbox [of fa fs c] by auto
next
  show "msg_transfer ` set (outbox (state_of (startup z wb els))) \<subseteq> {[]}"
    using startup_outbox [of z wb els] by auto
qed

theorem C7_only_part000_reply_transfers_witness:
  "truthy (handle test_ready)
   \<and> get test_request_part000 ''wasm'' = Inr JUndefined \<and> \<not> truthy JUndefined
   \<and> get test_request_part000 ''buffers''
       = Inr (JObject [(''left'', JFloat32Array 10), (''right'', JFloat32Array 11)])
   \<and> get (JObject [(''left'', JFloat32Array 10), (''right'', JFloat32Array 11)]) ''left''
       = Inr (JFloat32Array 10)
   \<and> get (JObject [(''left'', JFloat32Array 10), (''right'', JFloat32Array 11)]) ''right''
       = Inr (JFloat32Array 11)
   \<and> (10::nat) \<noteq> 11
   \<and> wasm_inst test_ready = Some 5
   \<and> heap test_ready 10 = Some [0, 0, 0] \<and> heap test_ready 11 = Some [0, 0, 0]
   \<and> get_sample test_wasm [0, 0, 0] [0, 0, 0] (handle test_ready) 5
       = (Inr ([5, 5, 5], [6, 6, 6]), 7)
   \<and> onmessage_part000 test_wasm (JNum 48000) test_request_part000 test_ready
       = Return ()
           (test_ready\<lparr>calls := calls test_ready
                  @ [GetSample (JFloat32Array 10) (JFloat32Array 11) (handle test_ready)],
              wasm_inst := Some 7,
              outbox := outbox test_ready @
                [\<lparr>msg_data = JObject [(''buffers'',
                     JObject [(''left'', JFloat32Array 10), (''right'', JFloat32Array 11)])],
                  msg_transfer = [JArrayBuffer 10, JArrayBuffer 11],
                  msg_heap = (heap test_ready)(10 \<mapsto> [5, 5, 5], 11 \<mapsto> [6, 6, 6])\<rparr>],
              heap := (heap test_ready)(10 \<mapsto> [5, 5, 5], 11 \<mapsto> [6, 6, 6]) |` (- {10, 11})\<rparr>)
   \<and> msg_transfer ` set (outbox (state_of (startup (0::nat) [] test_doc))) \<subseteq> {[]}"
proof -
  have h1: "truthy (handle test_ready)" by (simp add: test_ready_def)
  have h2: "get test_request_part000 ''wasm'' = Inr JUndefined"
    by (simp add: test_request_part000_def)
  have h3: "\<not> truthy JUndefined" by simp
  have h4: "get test_request_part000 ''buffers''
       = Inr (JObject [(''left'', JFloat32Array 10), (''right'', JFloat32Array 11)])"
    by (simp add: test_request_part000_def)
  have h5: "get (JObject [(''left'', JFloat32Array 10), (''right'', JFloat32Array 11)]) ''left''
       = Inr (JFloat32Array 10)" by simp
  have h6: "get (JObject [(''left'', JFloat32Array 10), (''right'', JFloat32Array 11)]) ''right''
       = Inr (JFloat32Array 11)" by simp
  have h7: "(10::nat) \<noteq> 11" by simp
  have h8: "wasm_inst test_ready = Some 5" by (simp add: test_ready_def)
  have h9: "heap test_ready 10 = Some [0, 0, 0]" by (simp add: test_ready_def test_heap_def)
  have h10: "heap test_ready 11 = Some [0, 0, 0]" by (simp add: test_ready_def test_heap_def)
  have h11: "get_sample test_wasm [0, 0, 0] [0, 0, 0] (handle test_ready) 5
       = (Inr ([5, 5, 5], [6, 6, 6]), 7)"
    by (simp add: test_wasm_def test_fill_def numeral_3_eq_3)
  from C7_only_part000_reply_transfers [where rate = "JNum 48000" and z = "0::nat"
      and wb = "[]" and els = test_doc, OF h1 h2 h3 h4 h5 h6 h7 h8 h9 h10 h11]
    h1 h2 h3 h4 h5 h6 h7 h8 h9 h10 h11
  show ?thesis by blast
qed

text \<open>
  C8. The state machine of the processor is one-way. In both versions \<open>this.handle\<close> is
  assigned only by the bootstrap branch, with what \<open>new_handle\<close> returns; so, for a
  module whose handles are truthy, a processor that has a handle keeps one through every
  sequence of messages and audio callbacks, whatever they carry and whether or not a
  handler throws.
\<close>

theorem C8_ready_is_one_way:
  assumes "\<And>g h g'. new_handle w rate g = (Inr h, g') \<Longrightarrow> truthy h"
    and "truthy (handle s)"
  shows "truthy (handle (run onmessage w rate evs s))
       \<and> truthy (handle (run onmessage_part000 w rate evs s))"
  using run_handle [OF assms(1) _ assms(2), where hm = onmessage and evs = evs]
    run_handle [OF assms(1) _ assms(2), where hm = onmessage_part000 and evs = evs]
  by simp


theorem C8_ready_is_one_way_witness:
  "new_handle test_wasm (JNum 48000) 5 = (Inr (JNum 1), 5) \<and> truthy (JNum 1)
   \<and> truthy (handle test_ready)
   \<and> truthy (handle (run onmessage test_wasm (JNum 48000)
        [Message both_request Map.empty, Audio [] Map.empty, Message (mirror_request 10 11) Map.empty]
        test_ready))
   \<and> truthy (handle (run onmessage_part000 test_wasm (JNum 48000)
        [Message both_request Map.empty, Audio [] Map.empty, Message (mirror_request 10 11) Map.empty]
        test_ready))"
proof -
  have h1: "\<And>g h g'. new_handle test_wasm (JNum 48000) g = (Inr h, g') \<Longrightarrow> truthy h"
    by (auto simp add: test_wasm_def)
  have h2: "truthy (handle test_ready)" by (simp add: test_ready_def)
  have h3: "new_handle test_wasm (JNum 48000) 5 = (Inr (JNum 1), 5)"
    by (simp add: test_wasm_def)
  from C8_ready_is_one_way [OF h1 h2] h2 h3 show ?thesis by simp
qed

text \<open>
  C9. A message whose \<open>wasm\<close> field is truthy is handled as a bootstrap and nothing
  else, in both versions and in every state, also when it carries mirror buffers: the
  heap is unchanged (no buffer is filled), nothing is posted (no reply), and the only
  calls into the module are \<open>initSync\<close> and, if that returns, \<open>new_handle\<close>.
\<close>

theorem C9_bootstrap_exclusive:
  assumes "get data ''wasm'' = Inr p" and "truthy p"
  shows "outbox (state_of (onmessage w rate data s)) = outbox s
       \<and> heap (state_of (onmessage w rate data s)) = heap s
       \<and> (calls (state_of (onmessage w rate data s))
             = calls s @ [InitSync (JObject [(''module'', p)])]
          \<or> calls (state_of (onmessage w rate data s))
             = calls s @ [InitSync (JObject [(''module'', p)]), NewHandle rate])
       \<and> outbox (state_of (onmessage_part000 w rate data s)) = outbox s
       \<and> heap (state_of (onmessage_part000 w rate data s)) = heap s
       \<and> (calls (state_of (onmessage_part000 w rate data s))
             = calls s @ [InitSync (JObject [(''module'', p)])]
          \<or> calls (state_of (onmessage_part000 w rate data s))
             = calls s @ [InitSync (JObject [(''module'', p)]), NewHandle rate])"
proof -
  have a: "onmessage w rate data s = bootstrap w rate p s"
    using assms by (simp add: onmessage_def)
  have b: "onmessage_part000 w rate data s = bootstrap w rate p s"
    using assms by (simp add: onmessage_part000_def)
  show ?thesis
    unfolding a b using bootstrap_calls [of w rate p s] by (simp add: bootstrap_frame)
qed

theorem C9_bootstrap_exclusive_witness:
  "get both_request ''wasm'' = Inr (JArrayBuffer 0) \<and> truthy (JArrayBuffer 0)
   \<and> outbox (state_of (onmessage test_wasm (JNum 48000) both_request test_ready)) = []
   \<and> heap (state_of (onmessage test_wasm (JNum 48000) both_request test_ready)) = test_heap
   \<and> outbox (state_of (onmessage_part000 test_wasm (JNum 48000) both_request test_ready)) = []
   \<and> heap (state_of (onmessage_part000 test_wasm (JNum 48000) both_request test_ready))
       = test_heap"
proof -
  have h1: "get both_request ''wasm'' = Inr (JArrayBuffer 0)"
    by (simp add: both_request_def)
  have h2: "truthy (JArrayBuffer 0)" by simp
  have r: "outbox test_ready = []" "heap test_ready = test_heap"
    by (simp_all add: test_ready_def)
  from C9_bootstrap_exclusive [OF h1 h2, of test_wasm "JNum 48000" test_ready] h1 h2 r
  show ?thesis by simp
qed

text \<open>
  C10. In src/worklet.js a mirror request that is serviced (the processor has a handle,
  the message carries no truthy \<open>wasm\<close> field, its \<open>buffer.left\<close> and \<open>buffer.right\<close>
  are typed arrays, and \<open>get_sample\<close> returns) is answered by exactly one message,
  which is the request's own \<open>ev.data\<close>, posted after the fill with nothing
  transferred. The heap it is read from differs from the heap before the request only in
  the contents of the left and right arrays, so every other field of the request reaches
  the requester unchanged.
\<close>

theorem C10_reply_is_request:
  assumes "truthy (handle s)"
    and "get data ''wasm'' = Inr v" and "\<not> truthy v"
    and "get data ''buffer'' = Inr buffer"
    and "get buffer ''left'' = Inr (JFloat32Array a)"
    and "get buffer ''right'' = Inr (JFloat32Array b)"
    and "wasm_inst s = Some g" and "heap s a = Some l" and "heap s b = Some r"
    and "get_sample w l r (handle s) g = (Inr (l', r'), g')"
  shows "onmessage w rate data s
     = Return ()
         (s\<lparr>calls := calls s @ [GetSample (JFloat32Array a) (JFloat32Array b) (handle s)],
            wasm_inst := Some g',
            heap := (heap s)(a \<mapsto> l', b \<mapsto> r'),
            outbox := outbox s @
              [\<lparr>msg_data = data, msg_transfer = [],
                msg_heap = (heap s)(a \<mapsto> l', b \<mapsto> r')\<rparr>]\<rparr>)"
proof -
  have tb: "truthy buffer" using assms(5) by (rule get_typed_array_truthy)
  have cf: "call_fill WasmGetSample w (JFloat32Array a) (JFloat32Array b) (handle s) s
     = Return () (s\<lparr>calls := calls s @ [GetSample (JFloat32Array a) (JFloat32Array b) (handle s)],
          wasm_inst := Some g', heap := (heap s)(a \<mapsto> l', b \<mapsto> r')\<rparr>)"
    using get_sample_ok [OF assms(7) assms(8) assms(9) assms(10)] .
  show ?thesis
    using assms(1-6) tb by (simp add: onmessage_def cf postMessage_copy)
qed

theorem C10_reply_is_request_witness:
  "truthy (handle test_ready)
   \<and> get (mirror_request 10 11) ''wasm'' = Inr JUndefined \<and> \<not> truthy JUndefined
   \<and> get (mirror_request 10 11) ''buffer''
       = Inr (JObject [(''left'', JFloat32Array 10), (''right'', JFloat32Array 11)])
   \<and> get (JObject [(''left'', JFloat32Array 10), (''right'', JFloat32Array 11)]) ''left''
       = Inr (JFloat32Array 10)
   \<and> get (JObject [(''left'', JFloat32Array 10), (''right'', JFloat32Array 11)]) ''right''
       = Inr (JFloat32Array 11)
   \<and> wasm_inst test_ready = Some 5
   \<and> heap test_ready 10 = Some [0, 0, 0] \<and> heap test_ready 11 = Some [0, 0, 0]
   \<and> get_sample test_wasm [0, 0, 0] [0, 0, 0] (handle test_ready) 5
       = (Inr ([5, 5, 5], [6, 6, 6]), 7)
   \<and> onmessage test_wasm (JNum 48000) (mirror_request 10 11) test_ready
       = Return ()
           (test_ready\<lparr>calls := calls test_ready
                  @ [GetSample (JFloat32Array 10) (JFloat32Array 11) (handle test_ready)],
              wasm_inst := Some 7,
              heap := (heap test_ready)(10 \<mapsto> [5, 5, 5], 11 \<mapsto> [6, 6, 6]),
              outbox := outbox test_ready @
                [\<lparr>msg_data = mirror_request 10 11, msg_transfer = [],
                  msg_heap = (heap test_ready)(10 \<mapsto> [5, 5, 5], 11 \<mapsto> [6, 6, 6])\<rparr>]\<rparr>)"
proof -
  have h1: "truthy (handle test_ready)" by (simp add: test_ready_def)
  have h2: "get (mirror_request 10 11) ''wasm'' = Inr JUndefined"
    by (simp add: mirror_request_def)
  have h3: "\<not> truthy JUndefined" by simp
  have h4: "get (mirror_request 10 11) ''buffer''
       = Inr (JObject [(''left'', JFloat32Array 10), (''right'', JFloat32Array 11)])"
    by (simp add: mirror_request_def)
  have h5: "get (JObject [(''left'', JFloat32Array 10), (''right'', JFloat32Array 11)]) ''left''
       = Inr (JFloat32Array 10)" by simp
  have h6: "get (JObject [(''left'', JFloat32Array 10), (''right'', JFloat32Array 11)]) ''right''
       = Inr (JFloat32Array 11)" by simp
  have h7: "wasm_inst test_ready = Some 5" by (simp add: test_ready_def)
  have h8: "heap test_ready 10 = Some [0, 0, 0]" by (simp add: test_ready_def test_heap_def)
  have h9: "heap test_ready 11 = Some [0, 0, 0]" by (simp add: test_ready_def test_heap_def)
  have h10: "get_sample test_wasm [0, 0, 0] [0, 0, 0] (handle test_ready) 5
       = (Inr ([5, 5, 5], [6, 6, 6]), 7)"
    by (simp add: test_wasm_def test_fill_def numeral_3_eq_3)
  from C10_reply_is_request [OF h1 h2 h3 h4 h5 h6 h7 h8 h9 h10, of "JNum 48000"]
    h1 h2 h3 h4 h5 h6 h7 h8 h9 h10
  show ?thesis by blast
qed

end
